theory Spec2Isabelle
  imports Complex_Main
begin

section \<open>Numbers of the program\<close>

text \<open>
  The objective computes on C++ \<^verbatim>\<open>double\<close> and \<^verbatim>\<open>float\<close> values. A value is a finite
  real, one of the two infinities, or a NaN. The operations below follow the special-value
  rules of IEEE 754 and of the C library (\<^verbatim>\<open>x / 0\<close>, \<^verbatim>\<open>0 / 0\<close>, \<^verbatim>\<open>0 * inf\<close>, comparisons
  with a NaN, \<^verbatim>\<open>pow\<close>, \<^verbatim>\<open>log\<close>, \<^verbatim>\<open>exp\<close>); on finite values they are exact. Rounding,
  overflow, underflow and the sign of zero are outside the model: a finite result is the
  real number itself, zero is unsigned (a nonzero value divided by zero is the infinity of
  the dividend's sign), and \<^verbatim>\<open>float\<close> and \<^verbatim>\<open>double\<close> are the same type, so that the casts
  \<^verbatim>\<open>static_cast<score_t>\<close> are the identity.
\<close>

text \<open>
  The theorems about the program take two things from this arithmetic: the expression the
  code evaluates, and facts that hold of IEEE 754 arithmetic as they hold here (a finite
  value other than zero divided by itself is 1, zero divided by such a value and zero
  times a finite value are zero, \<^verbatim>\<open>pow(1, y)\<close> and \<^verbatim>\<open>pow(x, 0)\<close> are 1, \<^verbatim>\<open>pow(0, y)\<close> is
  zero for \<open>y\<close> above zero, \<^verbatim>\<open>0 / 0\<close> and \<^verbatim>\<open>inf / inf\<close> are NaN, \<open>|x - y| = |y - x|\<close>).
  What depends on the rounding of a finite result is not stated. The examples evaluate the
  exact arithmetic of the model.
\<close>

datatype double = Fin real | PInf | NInf | NaN

fun sign_of :: "double \<Rightarrow> int" where
  "sign_of (Fin a) = (if 0 < a then 1 else if a < 0 then - 1 else 0)"
| "sign_of PInf = 1"
| "sign_of NInf = - 1"
| "sign_of NaN = 0"

definition inf_of_sign :: "int \<Rightarrow> double" where
  "inf_of_sign s = (if 0 < s then PInf else if s < 0 then NInf else NaN)"

instantiation double :: "{plus, uminus, minus, times, inverse, abs, ord}"
begin

fun plus_double :: "double \<Rightarrow> double \<Rightarrow> double" where
  "Fin a + Fin b = Fin (a + b)"
| "NaN + _ = NaN"
| "_ + NaN = NaN"
| "PInf + NInf = NaN"
| "NInf + PInf = NaN"
| "PInf + _ = PInf"
| "_ + PInf = PInf"
| "NInf + _ = NInf"
| "_ + NInf = NInf"

fun uminus_double :: "double \<Rightarrow> double" where
  "- Fin a = Fin (- a)"
| "- PInf = NInf"
| "- NInf = PInf"
| "- NaN = NaN"

definition minus_double :: "double \<Rightarrow> double \<Rightarrow> double" where
  "a - b = a + (- b :: double)"

fun times_double :: "double \<Rightarrow> double \<Rightarrow> double" where
  "Fin a * Fin b = Fin (a * b)"
| "NaN * _ = NaN"
| "_ * NaN = NaN"
| "a * b = inf_of_sign (sign_of a * sign_of b)"

fun divide_double :: "double \<Rightarrow> double \<Rightarrow> double" where
  "divide_double (Fin a) (Fin b) =
     (if b \<noteq> 0 then Fin (a / b) else inf_of_sign (sign_of (Fin a)))"
| "divide_double NaN _ = NaN"
| "divide_double _ NaN = NaN"
| "divide_double (Fin a) _ = Fin 0"
| "divide_double PInf (Fin b) = (if 0 \<le> b then PInf else NInf)"
| "divide_double NInf (Fin b) = (if 0 \<le> b then NInf else PInf)"
| "divide_double _ _ = NaN"

definition inverse_double :: "double \<Rightarrow> double" where
  "inverse_double a = divide (Fin 1) a"

fun abs_double :: "double \<Rightarrow> double" where
  "\<bar>Fin a\<bar> = Fin \<bar>a\<bar>"
| "\<bar>PInf\<bar> = PInf"
| "\<bar>NInf\<bar> = PInf"
| "\<bar>NaN\<bar> = NaN"

fun less_double :: "double \<Rightarrow> double \<Rightarrow> bool" where
  "Fin a < Fin b \<longleftrightarrow> a < b"
| "NaN < _ \<longleftrightarrow> False"
| "_ < NaN \<longleftrightarrow> False"
| "_ < NInf \<longleftrightarrow> False"
| "NInf < _ \<longleftrightarrow> True"
| "PInf < _ \<longleftrightarrow> False"
| "_ < PInf \<longleftrightarrow> True"

fun less_eq_double :: "double \<Rightarrow> double \<Rightarrow> bool" where
  "Fin a \<le> Fin b \<longleftrightarrow> a \<le> b"
| "NaN \<le> _ \<longleftrightarrow> False"
| "_ \<le> NaN \<longleftrightarrow> False"
| "NInf \<le> _ \<longleftrightarrow> True"
| "_ \<le> PInf \<longleftrightarrow> True"
| "PInf \<le> _ \<longleftrightarrow> False"
| "_ \<le> NInf \<longleftrightarrow> False"

instance ..

end

text \<open>The comparison \<^verbatim>\<open>==\<close> of two doubles: a NaN is equal to nothing, itself included.\<close>

fun deq :: "double \<Rightarrow> double \<Rightarrow> bool" where
  "deq NaN _ = False"
| "deq _ NaN = False"
| "deq a b = (a = b)"

text \<open>The C library's \<^verbatim>\<open>log\<close>, \<^verbatim>\<open>log2\<close>, \<^verbatim>\<open>exp\<close> and \<^verbatim>\<open>pow\<close>.\<close>

fun c_log :: "double \<Rightarrow> double" where
  "c_log (Fin a) = (if 0 < a then Fin (ln a) else if a = 0 then NInf else NaN)"
| "c_log PInf = PInf"
| "c_log NInf = NaN"
| "c_log NaN = NaN"

fun c_log2 :: "double \<Rightarrow> double" where
  "c_log2 (Fin a) = (if 0 < a then Fin (log 2 a) else if a = 0 then NInf else NaN)"
| "c_log2 PInf = PInf"
| "c_log2 NInf = NaN"
| "c_log2 NaN = NaN"

fun c_exp :: "double \<Rightarrow> double" where
  "c_exp (Fin a) = Fin (exp a)"
| "c_exp PInf = PInf"
| "c_exp NInf = Fin 0"
| "c_exp NaN = NaN"

definition is_integer :: "real \<Rightarrow> bool" where
  "is_integer b \<longleftrightarrow> of_int \<lfloor>b\<rfloor> = b"

definition is_odd_integer :: "real \<Rightarrow> bool" where
  "is_odd_integer b \<longleftrightarrow> is_integer b \<and> odd \<lfloor>b\<rfloor>"

fun c_pow_cases :: "double \<Rightarrow> double \<Rightarrow> double" where
  "c_pow_cases NaN _ = NaN"
| "c_pow_cases _ NaN = NaN"
| "c_pow_cases (Fin a) (Fin b) =
     (if 0 < a then Fin (a powr b)
      else if a = 0 then (if b < 0 then PInf else Fin 0)
      else if is_odd_integer b then Fin (- ((- a) powr b))
      else if is_integer b then Fin ((- a) powr b)
      else NaN)"
| "c_pow_cases (Fin a) PInf = (if \<bar>a\<bar> < 1 then Fin 0 else if \<bar>a\<bar> = 1 then Fin 1 else PInf)"
| "c_pow_cases (Fin a) NInf = (if \<bar>a\<bar> < 1 then PInf else if \<bar>a\<bar> = 1 then Fin 1 else Fin 0)"
| "c_pow_cases PInf y = (if y < Fin 0 then Fin 0 else PInf)"
| "c_pow_cases NInf (Fin b) =
     (if b < 0 then Fin 0 else if is_odd_integer b then NInf else PInf)"
| "c_pow_cases NInf PInf = PInf"
| "c_pow_cases NInf NInf = Fin 0"

definition c_pow :: "double \<Rightarrow> double \<Rightarrow> double" where
  "c_pow x y = (if y = Fin 0 \<or> x = Fin 1 then Fin 1 else c_pow_cases x y)"

section \<open>Memory accesses and errors\<close>

text \<open>
  The arrays of the program are lists. An access \<^verbatim>\<open>a[i]\<close> outside the array is undefined
  behaviour in C++; the model stops there with \<open>OutOfBounds\<close> and the name of the array.
  \<^verbatim>\<open>Log::Fatal\<close> is the error \<open>Fatal\<close> with its message. A cast of a NaN to \<^verbatim>\<open>size_t\<close>
  is undefined as well (\<open>BadCast\<close>).
\<close>

datatype array =
    A_sorted_idx | A_score | A_label | A_lambdas | A_hessians
  | A_inverse_max_dcgs | A_sigmoid_table | A_label_gain
  | A_i_biases_pow | A_j_biases_pow | A_i_costs | A_j_costs
  | A_i_costs_buffer | A_j_costs_buffer
  | A_query_boundaries | A_weights | A_gradients | A_rands | A_rho | A_params

datatype error = Fatal string | OutOfBounds array | BadCast

definition bindE :: "error + 'a \<Rightarrow> ('a \<Rightarrow> error + 'b) \<Rightarrow> error + 'b" where
  "bindE m f = (case m of Inl e \<Rightarrow> Inl e | Inr x \<Rightarrow> f x)"

definition rd :: "array \<Rightarrow> 'a list \<Rightarrow> nat \<Rightarrow> error + 'a" where
  "rd a xs i = (if i < length xs then Inr (xs ! i) else Inl (OutOfBounds a))"

definition wr :: "array \<Rightarrow> 'a list \<Rightarrow> nat \<Rightarrow> 'a \<Rightarrow> error + 'a list" where
  "wr a xs i v = (if i < length xs then Inr (xs[i := v]) else Inl (OutOfBounds a))"

text \<open>A \<^verbatim>\<open>for\<close> loop over the indices \<open>xs\<close>, stopping at the first error.\<close>

fun forE :: "nat list \<Rightarrow> (nat \<Rightarrow> 's \<Rightarrow> error + 's) \<Rightarrow> 's \<Rightarrow> error + 's" where
  "forE [] body s = Inr s"
| "forE (i # is) body s = bindE (body i s) (forE is body)"

definition rd2 :: "array \<Rightarrow> 'a list list \<Rightarrow> nat \<Rightarrow> nat \<Rightarrow> error + 'a" where
  "rd2 a xss i j = bindE (rd a xss i) (\<lambda>row. rd a row j)"

definition wr2 :: "array \<Rightarrow> 'a list list \<Rightarrow> nat \<Rightarrow> nat \<Rightarrow> 'a \<Rightarrow> error + 'a list list" where
  "wr2 a xss i j v =
     bindE (rd a xss i) (\<lambda>row. bindE (wr a row j v) (\<lambda>row'. wr a xss i row'))"

text \<open>
  \<^verbatim>\<open>static_cast<size_t>(x)\<close> truncates a finite \<open>x > -1\<close> towards zero and is undefined
  for every other value.
\<close>

definition to_size_t :: "double \<Rightarrow> error + nat" where
  "to_size_t x = (case x of Fin a \<Rightarrow> if - 1 < a then Inr (nat \<lfloor>a\<rfloor>) else Inl BadCast
                  | _ \<Rightarrow> Inl BadCast)"

section \<open>The objects\<close>

text \<open>
  A member \<^verbatim>\<open>x_\<close> of a C++ class is the field \<open>x_'\<close> of the record (a name cannot end
  with an underscore), and \<^verbatim>\<open>_sigmoid_bins\<close> is \<open>sigmoid_bins'\<close>. A null pointer is
  \<open>None\<close>. Labels are the relevance grades \<open>0, 1, 2, ...\<close>; sizes, counts and indices
  are natural numbers.
\<close>

record RankingObjective =
  seed_' :: int
  num_queries_' :: nat
  num_data_' :: nat
  label_' :: "nat list"
  weights_' :: "double list option"
  query_boundaries_' :: "nat list option"

record LambdarankNDCG = RankingObjective +
  sigmoid_' :: double
  norm_' :: bool
  truncation_level_' :: nat
  inverse_max_dcgs_' :: "double list"
  sigmoid_table_' :: "double list"
  label_gain_' :: "double list"
  sigmoid_bins' :: nat
  min_sigmoid_input_' :: double
  max_sigmoid_input_' :: double
  sigmoid_table_idx_factor_' :: double
  i_biases_pow_' :: "double list"
  j_biases_pow_' :: "double list"
  i_costs_' :: "double list"
  i_costs_buffer_' :: "double list list"
  j_costs_' :: "double list"
  j_costs_buffer_' :: "double list list"
  unbiased_' :: bool
  eta_' :: double
  num_threads_' :: nat

record 'g RankXENDCG = RankingObjective +
  rands_' :: "'g list"

text \<open>The configuration and the metadata the objective reads at construction and at Init.\<close>

record Config =
  objective_seed :: int
  sigmoid :: double
  lambdarank_norm :: bool
  lambdarank_truncation_level :: nat
  lambdarank_unbiased :: bool
  lambdarank_eta :: double
  label_gain :: "double list"

record Metadata =
  md_label :: "nat list"
  md_weights :: "double list option"
  md_query_boundaries :: "nat list option"
  md_num_queries :: nat

section \<open>The sigmoid table\<close>

definition ConstructSigmoidTable :: "LambdarankNDCG \<Rightarrow> LambdarankNDCG" where
  "ConstructSigmoidTable obj =
     (let mn = min_sigmoid_input_' obj / sigmoid_' obj / Fin 2;
          mx = - mn;
          factor = Fin (real (sigmoid_bins' obj)) / (mx - mn)
      in obj\<lparr> min_sigmoid_input_' := mn,
               max_sigmoid_input_' := mx,
               sigmoid_table_idx_factor_' := factor,
               sigmoid_table_' :=
                 map (\<lambda>i. Fin 1 / (Fin 1 + c_exp ((Fin (real i) / factor + mn) * sigmoid_' obj)))
                   [0..<sigmoid_bins' obj] \<rparr>)"

definition GetSigmoid :: "LambdarankNDCG \<Rightarrow> double \<Rightarrow> error + double" where
  "GetSigmoid obj score =
     (if score \<le> min_sigmoid_input_' obj then rd A_sigmoid_table (sigmoid_table_' obj) 0
      else if max_sigmoid_input_' obj \<le> score then
        rd A_sigmoid_table (sigmoid_table_' obj) (sigmoid_bins' obj - 1)
      else
        bindE (to_size_t ((score - min_sigmoid_input_' obj) * sigmoid_table_idx_factor_' obj))
          (\<lambda>k. rd A_sigmoid_table (sigmoid_table_' obj) k))"

section \<open>The position-bias estimator\<close>

definition InitPositionBiasesAndGradients :: "LambdarankNDCG \<Rightarrow> LambdarankNDCG" where
  "InitPositionBiasesAndGradients obj =
     (let t = truncation_level_' obj in
      obj\<lparr> i_biases_pow_' := replicate t (Fin 1),
           j_biases_pow_' := replicate t (Fin 1),
           i_costs_' := replicate t (Fin 0),
           j_costs_' := replicate t (Fin 0),
           i_costs_buffer_' := i_costs_buffer_' obj @ replicate (num_threads_' obj) (replicate t (Fin 0)),
           j_costs_buffer_' := j_costs_buffer_' obj @ replicate (num_threads_' obj) (replicate t (Fin 0)) \<rparr>)"

text \<open>The body of the reduction loop: thread \<open>i\<close>, rank \<open>j\<close>.\<close>

definition accumulate_costs :: "nat \<Rightarrow> nat \<Rightarrow> LambdarankNDCG \<Rightarrow> error + LambdarankNDCG" where
  "accumulate_costs i j obj =
     bindE (rd A_i_costs (i_costs_' obj) j) (\<lambda>ic.
     bindE (rd2 A_i_costs_buffer (i_costs_buffer_' obj) i j) (\<lambda>ib.
     bindE (wr A_i_costs (i_costs_' obj) j (ic + ib)) (\<lambda>i_costs.
     bindE (rd A_j_costs (j_costs_' obj) j) (\<lambda>jc.
     bindE (rd2 A_j_costs_buffer (j_costs_buffer_' obj) i j) (\<lambda>jb.
     bindE (wr A_j_costs (j_costs_' obj) j (jc + jb)) (\<lambda>j_costs.
     bindE (wr2 A_i_costs_buffer (i_costs_buffer_' obj) i j (Fin 0)) (\<lambda>i_buffer.
     bindE (wr2 A_j_costs_buffer (j_costs_buffer_' obj) i j (Fin 0)) (\<lambda>j_buffer.
     Inr (obj\<lparr> i_costs_' := i_costs, j_costs_' := j_costs,
                i_costs_buffer_' := i_buffer, j_costs_buffer_' := j_buffer \<rparr>)))))))))"

text \<open>\<^verbatim>\<open>LogDebugPositionBiases\<close> only reads the four arrays.\<close>

definition LogDebugPositionBiases :: "LambdarankNDCG \<Rightarrow> error + LambdarankNDCG" where
  "LogDebugPositionBiases obj =
     forE [0..<truncation_level_' obj] (\<lambda>i s.
       bindE (rd A_i_biases_pow (i_biases_pow_' s) i) (\<lambda>_.
       bindE (rd A_j_biases_pow (j_biases_pow_' s) i) (\<lambda>_.
       bindE (rd A_i_costs (i_costs_' s) i) (\<lambda>_.
       bindE (rd A_j_costs (j_costs_' s) i) (\<lambda>_. Inr s))))) obj"

definition update_bias :: "nat \<Rightarrow> LambdarankNDCG \<Rightarrow> error + LambdarankNDCG" where
  "update_bias i obj =
     bindE (rd A_i_costs (i_costs_' obj) i) (\<lambda>ici.
     bindE (rd A_i_costs (i_costs_' obj) 0) (\<lambda>ic0.
     bindE (wr A_i_biases_pow (i_biases_pow_' obj) i (c_pow (ici / ic0) (eta_' obj))) (\<lambda>i_pow.
     bindE (rd A_j_costs (j_costs_' obj) i) (\<lambda>jci.
     bindE (rd A_j_costs (j_costs_' obj) 0) (\<lambda>jc0.
     bindE (wr A_j_biases_pow (j_biases_pow_' obj) i (c_pow (jci / jc0) (eta_' obj))) (\<lambda>j_pow.
     Inr (obj\<lparr> i_biases_pow_' := i_pow, j_biases_pow_' := j_pow \<rparr>)))))))"

definition clear_costs :: "nat \<Rightarrow> LambdarankNDCG \<Rightarrow> error + LambdarankNDCG" where
  "clear_costs i obj =
     bindE (wr A_i_costs (i_costs_' obj) i (Fin 0)) (\<lambda>i_costs.
     bindE (wr A_j_costs (j_costs_' obj) i (Fin 0)) (\<lambda>j_costs.
     Inr (obj\<lparr> i_costs_' := i_costs, j_costs_' := j_costs \<rparr>)))"

text \<open>Lines 430 to 439: the buffers of the threads are added to the costs and cleared.\<close>

definition reduce_cost_buffers :: "LambdarankNDCG \<Rightarrow> error + LambdarankNDCG" where
  "reduce_cost_buffers obj =
     forE [0..<num_threads_' obj]
       (\<lambda>i. forE [0..<truncation_level_' obj] (accumulate_costs i)) obj"

definition UpdatePositionBiasesAndGradients :: "LambdarankNDCG \<Rightarrow> error + LambdarankNDCG" where
  "UpdatePositionBiasesAndGradients obj =
     bindE (reduce_cost_buffers obj) (\<lambda>obj1.
     bindE (LogDebugPositionBiases obj1) (\<lambda>obj2.
     bindE (forE [0..<truncation_level_' obj] update_bias obj2) (\<lambda>obj3.
     forE [0..<truncation_level_' obj] clear_costs obj3)))"

text \<open>
  The shape \<^verbatim>\<open>InitPositionBiasesAndGradients\<close> gives the estimator's arrays: one entry
  per rank below the truncation level, one buffer row per thread.
\<close>

definition bias_state_ok :: "LambdarankNDCG \<Rightarrow> bool" where
  "bias_state_ok obj \<longleftrightarrow>
     length (i_biases_pow_' obj) = truncation_level_' obj \<and>
     length (j_biases_pow_' obj) = truncation_level_' obj \<and>
     length (i_costs_' obj) = truncation_level_' obj \<and>
     length (j_costs_' obj) = truncation_level_' obj \<and>
     length (i_costs_buffer_' obj) = num_threads_' obj \<and>
     length (j_costs_buffer_' obj) = num_threads_' obj \<and>
     list_all (\<lambda>row. length row = truncation_level_' obj) (i_costs_buffer_' obj) \<and>
     list_all (\<lambda>row. length row = truncation_level_' obj) (j_costs_buffer_' obj)"

text \<open>A finite value other than zero.\<close>

fun finite_nonzero :: "double \<Rightarrow> bool" where
  "finite_nonzero (Fin a) \<longleftrightarrow> a \<noteq> 0"
| "finite_nonzero _ \<longleftrightarrow> False"

section \<open>The pairwise gradient computer\<close>

text \<open>
  \<^verbatim>\<open>std::stable_sort\<close> of the document indices with the comparator
  \<^verbatim>\<open>score[a] > score[b]\<close>: \<open>x\<close>, which stands before every element of \<open>ys\<close> in the
  input, moves behind exactly the elements with a strictly greater score.
\<close>

fun insert_desc :: "(nat \<Rightarrow> double) \<Rightarrow> nat \<Rightarrow> nat list \<Rightarrow> nat list" where
  "insert_desc key x [] = [x]"
| "insert_desc key x (y # ys) =
     (if key x < key y then y # insert_desc key x ys else x # y # ys)"

definition stable_sort_desc :: "(nat \<Rightarrow> double) \<Rightarrow> nat list \<Rightarrow> nat list" where
  "stable_sort_desc key xs = foldr (insert_desc key) xs []"

text \<open>
  What the loops over the pairs change: the two output slices, the running sum, and the
  cost buffers of the threads.
\<close>

record pair_state =
  lambdas :: "double list"
  hessians :: "double list"
  sum_lambdas :: double
  i_costs_buffer :: "double list list"
  j_costs_buffer :: "double list list"

text \<open>Lines 300 to 308: the cost of the pair goes to the buffers of thread \<open>tid\<close>.\<close>

definition add_pair_cost ::
  "LambdarankNDCG \<Rightarrow> nat \<Rightarrow> nat \<Rightarrow> nat \<Rightarrow> double \<Rightarrow> double \<Rightarrow> pair_state \<Rightarrow> error + pair_state"
where
  "add_pair_cost obj tid high_rank low_rank p_lambda delta_pair_NDCG st =
     (let p_cost = c_log (Fin 1 / (Fin 1 - p_lambda)) * delta_pair_NDCG in
      bindE (rd2 A_i_costs_buffer (i_costs_buffer st) tid high_rank) (\<lambda>ic.
      bindE (rd A_j_biases_pow (j_biases_pow_' obj) low_rank) (\<lambda>jb.
      bindE (wr2 A_i_costs_buffer (i_costs_buffer st) tid high_rank (ic + p_cost / jb)) (\<lambda>i_buffer.
      bindE (rd2 A_j_costs_buffer (j_costs_buffer st) tid low_rank) (\<lambda>jc.
      bindE (rd A_i_biases_pow (i_biases_pow_' obj) high_rank) (\<lambda>ib.
      bindE (wr2 A_j_costs_buffer (j_costs_buffer st) tid low_rank (jc + p_cost / ib)) (\<lambda>j_buffer.
      Inr (st\<lparr> i_costs_buffer := i_buffer, j_costs_buffer := j_buffer \<rparr>))))))))"

text \<open>Lines 358 to 364: the pair's lambda and hessian go to the two documents.\<close>

definition add_pair_gradients ::
  "nat \<Rightarrow> nat \<Rightarrow> double \<Rightarrow> double \<Rightarrow> pair_state \<Rightarrow> error + pair_state"
where
  "add_pair_gradients high low p_lambda p_hessian st =
     bindE (rd A_lambdas (lambdas st) low) (\<lambda>l_low.
     bindE (wr A_lambdas (lambdas st) low (l_low - p_lambda)) (\<lambda>lambdas1.
     bindE (rd A_hessians (hessians st) low) (\<lambda>h_low.
     bindE (wr A_hessians (hessians st) low (h_low + p_hessian)) (\<lambda>hessians1.
     bindE (rd A_lambdas lambdas1 high) (\<lambda>l_high.
     bindE (wr A_lambdas lambdas1 high (l_high + p_lambda)) (\<lambda>lambdas2.
     bindE (rd A_hessians hessians1 high) (\<lambda>h_high.
     bindE (wr A_hessians hessians1 high (h_high + p_hessian)) (\<lambda>hessians2.
     Inr (st\<lparr> lambdas := lambdas2, hessians := hessians2,
               sum_lambdas := sum_lambdas st - Fin 2 * p_lambda \<rparr>)))))))))"

text \<open>
  Lines 222 to 364, for the ranks \<open>high_rank\<close> and \<open>low_rank\<close> of a pair that passed the
  three \<^verbatim>\<open>continue\<close> tests. \<open>GetDiscount\<close> is \<^verbatim>\<open>DCGCalculator::GetDiscount\<close>, which is
  not part of this file.
\<close>

definition pair_contribution ::
  "(nat \<Rightarrow> double) \<Rightarrow> LambdarankNDCG \<Rightarrow> nat \<Rightarrow> double \<Rightarrow> double \<Rightarrow> double \<Rightarrow>
   nat list \<Rightarrow> nat list \<Rightarrow> double list \<Rightarrow> nat \<Rightarrow> nat \<Rightarrow> pair_state \<Rightarrow> error + pair_state"
where
  "pair_contribution GetDiscount obj tid inverse_max_dcg best_score worst_score
       sorted_idx label score high_rank low_rank st =
     bindE (rd A_sorted_idx sorted_idx high_rank) (\<lambda>high.
     bindE (rd A_label label high) (\<lambda>high_label.
     bindE (rd A_score score high) (\<lambda>high_score.
     bindE (rd A_label_gain (label_gain_' obj) high_label) (\<lambda>high_label_gain.
     bindE (rd A_sorted_idx sorted_idx low_rank) (\<lambda>low.
     bindE (rd A_label label low) (\<lambda>low_label.
     bindE (rd A_score score low) (\<lambda>low_score.
     bindE (rd A_label_gain (label_gain_' obj) low_label) (\<lambda>low_label_gain.
     let high_discount = GetDiscount high_rank;
         low_discount = GetDiscount low_rank;
         delta_score = high_score - low_score;
         dcg_gap = high_label_gain - low_label_gain;
         paired_discount = \<bar>high_discount - low_discount\<bar>;
         delta_pair_NDCG0 = dcg_gap * paired_discount * inverse_max_dcg;
         delta_pair_NDCG =
           (if (norm_' obj \<or> unbiased_' obj) \<and> \<not> deq best_score worst_score
            then delta_pair_NDCG0 / (Fin (1 / 100) + \<bar>delta_score\<bar>)
            else delta_pair_NDCG0)
     in
     bindE (GetSigmoid obj delta_score) (\<lambda>p_lambda0.
     let p_hessian0 = p_lambda0 * (Fin 1 - p_lambda0) in
     bindE (if unbiased_' obj
            then add_pair_cost obj tid high_rank low_rank p_lambda0 delta_pair_NDCG st
            else Inr st) (\<lambda>st1.
     bindE (rd A_i_biases_pow (i_biases_pow_' obj) high_rank) (\<lambda>ib.
     bindE (rd A_j_biases_pow (j_biases_pow_' obj) low_rank) (\<lambda>jb.
     let p_lambda = p_lambda0 * (- sigmoid_' obj * delta_pair_NDCG / ib / jb);
         p_hessian = p_hessian0 * (sigmoid_' obj * sigmoid_' obj * delta_pair_NDCG / ib / jb)
     in add_pair_gradients high low p_lambda p_hessian st1))))))))))))"

text \<open>The body of the inner loop (lines 217 to 365) for the ranks \<open>i < j\<close>.\<close>

definition pair_body ::
  "double \<Rightarrow> (nat \<Rightarrow> double) \<Rightarrow> LambdarankNDCG \<Rightarrow> nat \<Rightarrow> double \<Rightarrow> double \<Rightarrow> double \<Rightarrow>
   nat list \<Rightarrow> nat list \<Rightarrow> double list \<Rightarrow> nat \<Rightarrow> nat \<Rightarrow> pair_state \<Rightarrow> error + pair_state"
where
  "pair_body kMinScore GetDiscount obj tid inverse_max_dcg best_score worst_score
       sorted_idx label score i j st =
     bindE (rd A_sorted_idx sorted_idx j) (\<lambda>sj.
     bindE (rd A_score score sj) (\<lambda>score_j.
     if deq score_j kMinScore then Inr st
     else
       bindE (rd A_sorted_idx sorted_idx i) (\<lambda>si.
       bindE (rd A_label label si) (\<lambda>label_i.
       bindE (rd A_label label sj) (\<lambda>label_j.
       if label_i = label_j then Inr st
       else
         pair_contribution GetDiscount obj tid inverse_max_dcg best_score worst_score
           sorted_idx label score
           (if label_j < label_i then i else j) (if label_j < label_i then j else i) st)))))"

text \<open>The body of the outer loop (lines 213 to 366) for the rank \<open>i\<close>.\<close>

definition rank_body ::
  "double \<Rightarrow> (nat \<Rightarrow> double) \<Rightarrow> LambdarankNDCG \<Rightarrow> nat \<Rightarrow> double \<Rightarrow> double \<Rightarrow> double \<Rightarrow>
   nat \<Rightarrow> nat list \<Rightarrow> nat list \<Rightarrow> double list \<Rightarrow> nat \<Rightarrow> pair_state \<Rightarrow> error + pair_state"
where
  "rank_body kMinScore GetDiscount obj tid inverse_max_dcg best_score worst_score
       cnt sorted_idx label score i st =
     bindE (rd A_sorted_idx sorted_idx i) (\<lambda>si.
     bindE (rd A_score score si) (\<lambda>score_i.
     if deq score_i kMinScore then Inr st
     else
       forE [i + 1..<cnt]
         (pair_body kMinScore GetDiscount obj tid inverse_max_dcg best_score worst_score
            sorted_idx label score i) st))"

text \<open>Lines 177 to 180.\<close>

definition zero_gradients :: "nat \<Rightarrow> double list \<Rightarrow> double list \<Rightarrow> error + double list \<times> double list" where
  "zero_gradients cnt lambdas_in hessians_in =
     forE [0..<cnt] (\<lambda>i (ls, hs).
       bindE (wr A_lambdas ls i (Fin 0)) (\<lambda>ls'.
       bindE (wr A_hessians hs i (Fin 0)) (\<lambda>hs'. Inr (ls', hs')))) (lambdas_in, hessians_in)"

text \<open>
  Lines 171 to 366: everything before the normalisation. \<open>kMinScore\<close> is a constant of
  another file; \<open>tid\<close> is \<^verbatim>\<open>omp_get_thread_num()\<close>. The sort reads \<^verbatim>\<open>score[a]\<close> for
  \<open>a < cnt\<close>.
\<close>

definition accumulate_pairs ::
  "double \<Rightarrow> (nat \<Rightarrow> double) \<Rightarrow> LambdarankNDCG \<Rightarrow> nat \<Rightarrow> nat \<Rightarrow> nat \<Rightarrow> nat list \<Rightarrow> double list \<Rightarrow>
   double list \<Rightarrow> double list \<Rightarrow> error + pair_state"
where
  "accumulate_pairs kMinScore GetDiscount obj tid query_id cnt label score lambdas_in hessians_in =
     bindE (rd A_inverse_max_dcgs (inverse_max_dcgs_' obj) query_id) (\<lambda>inverse_max_dcg.
     bindE (zero_gradients cnt lambdas_in hessians_in) (\<lambda>(lambdas0, hessians0).
     if length score < cnt then Inl (OutOfBounds A_score)
     else
       let sorted_idx = stable_sort_desc (\<lambda>a. score ! a) [0..<cnt] in
       bindE (rd A_sorted_idx sorted_idx 0) (\<lambda>s0.
       bindE (rd A_score score s0) (\<lambda>best_score.
       bindE (if 0 < cnt - 1
              then bindE (rd A_sorted_idx sorted_idx (cnt - 1)) (\<lambda>sw.
                   bindE (rd A_score score sw) (\<lambda>score_w.
                   Inr (if deq score_w kMinScore then cnt - 1 - 1 else cnt - 1)))
              else Inr (cnt - 1)) (\<lambda>worst_idx.
       bindE (rd A_sorted_idx sorted_idx worst_idx) (\<lambda>sw.
       bindE (rd A_score score sw) (\<lambda>worst_score.
       forE [0..<min (cnt - 1) (truncation_level_' obj)]
         (rank_body kMinScore GetDiscount obj tid inverse_max_dcg best_score worst_score
            cnt sorted_idx label score)
         \<lparr> lambdas = lambdas0, hessians = hessians0, sum_lambdas = Fin 0,
           i_costs_buffer = i_costs_buffer_' obj, j_costs_buffer = j_costs_buffer_' obj \<rparr>)))))))"

text \<open>Lines 368 to 374.\<close>

definition normalize_body :: "double \<Rightarrow> nat \<Rightarrow> pair_state \<Rightarrow> error + pair_state" where
  "normalize_body norm_factor i st =
     bindE (rd A_lambdas (lambdas st) i) (\<lambda>l.
     bindE (wr A_lambdas (lambdas st) i (l * norm_factor)) (\<lambda>lambdas1.
     bindE (rd A_hessians (hessians st) i) (\<lambda>h.
     bindE (wr A_hessians (hessians st) i (h * norm_factor)) (\<lambda>hessians1.
     Inr (st\<lparr> lambdas := lambdas1, hessians := hessians1 \<rparr>)))))"

definition normalize :: "LambdarankNDCG \<Rightarrow> nat \<Rightarrow> pair_state \<Rightarrow> error + pair_state" where
  "normalize obj cnt st =
     (if norm_' obj \<and> Fin 0 < sum_lambdas st
      then forE [0..<cnt]
             (normalize_body (c_log2 (Fin 1 + sum_lambdas st) / sum_lambdas st)) st
      else Inr st)"

definition GetGradientsForOneQuery ::
  "double \<Rightarrow> (nat \<Rightarrow> double) \<Rightarrow> LambdarankNDCG \<Rightarrow> nat \<Rightarrow> nat \<Rightarrow> nat \<Rightarrow> nat list \<Rightarrow> double list \<Rightarrow>
   double list \<Rightarrow> double list \<Rightarrow> error + pair_state"
where
  "GetGradientsForOneQuery kMinScore GetDiscount obj tid query_id cnt label score lambdas_in hessians_in =
     bindE (accumulate_pairs kMinScore GetDiscount obj tid query_id cnt label score
              lambdas_in hessians_in)
       (normalize obj cnt)"

section \<open>The listwise gradient computer\<close>

text \<open>
  \<^verbatim>\<open>Common::Softmax\<close>, the generators \<^verbatim>\<open>Random\<close> with \<^verbatim>\<open>NextFloat\<close>, and \<^verbatim>\<open>kEpsilon\<close>
  belong to other files and are parameters. \<^verbatim>\<open>Common::Pow(2, l)\<close> is the power \<open>2 ^ l\<close>.
\<close>

definition Phi :: "nat \<Rightarrow> double \<Rightarrow> double" where
  "Phi l g = Fin (2 ^ l) - g"

definition c_max :: "double \<Rightarrow> double \<Rightarrow> double" where
  "c_max a b = (if a < b then b else a)"

definition xe_draw_params ::
  "('g \<Rightarrow> double \<times> 'g) \<Rightarrow> nat \<Rightarrow> nat list \<Rightarrow> nat \<Rightarrow> double list \<times> 'g list \<times> double \<Rightarrow>
   error + double list \<times> 'g list \<times> double"
where
  "xe_draw_params NextFloat query_id label i = (\<lambda>(params, rands, inv_denominator).
     bindE (rd A_label label i) (\<lambda>l.
     bindE (rd A_rands rands query_id) (\<lambda>g.
     bindE (wr A_rands rands query_id (snd (NextFloat g))) (\<lambda>rands1.
     bindE (wr A_params params i (Phi l (fst (NextFloat g)))) (\<lambda>params1.
     Inr (params1, rands1, inv_denominator + Phi l (fst (NextFloat g))))))))"

definition xe_first_order ::
  "double list \<Rightarrow> double \<Rightarrow> nat \<Rightarrow> double list \<times> double list \<times> double \<Rightarrow>
   error + double list \<times> double list \<times> double"
where
  "xe_first_order rho inv_denominator i = (\<lambda>(ls, params, sum_l1).
     bindE (rd A_params params i) (\<lambda>p.
     bindE (rd A_rho rho i) (\<lambda>r.
     let term = - p * inv_denominator + r in
     bindE (wr A_lambdas ls i term) (\<lambda>ls1.
     bindE (wr A_params params i (term / (Fin 1 - r))) (\<lambda>params1.
     Inr (ls1, params1, sum_l1 + term / (Fin 1 - r)))))))"

definition xe_second_order ::
  "double list \<Rightarrow> double \<Rightarrow> nat \<Rightarrow> double list \<times> double list \<times> double \<Rightarrow>
   error + double list \<times> double list \<times> double"
where
  "xe_second_order rho sum_l1 i = (\<lambda>(ls, params, sum_l2).
     bindE (rd A_rho rho i) (\<lambda>r.
     bindE (rd A_params params i) (\<lambda>p.
     let term = r * (sum_l1 - p) in
     bindE (rd A_lambdas ls i) (\<lambda>l.
     bindE (wr A_lambdas ls i (l + term)) (\<lambda>ls1.
     bindE (wr A_params params i (term / (Fin 1 - r))) (\<lambda>params1.
     Inr (ls1, params1, sum_l2 + term / (Fin 1 - r))))))))"

definition xe_third_order ::
  "double list \<Rightarrow> double list \<Rightarrow> double \<Rightarrow> nat \<Rightarrow> double list \<times> double list \<Rightarrow>
   error + double list \<times> double list"
where
  "xe_third_order rho params sum_l2 i = (\<lambda>(ls, hs).
     bindE (rd A_rho rho i) (\<lambda>r.
     bindE (rd A_params params i) (\<lambda>p.
     bindE (rd A_lambdas ls i) (\<lambda>l.
     bindE (wr A_lambdas ls i (l + r * (sum_l2 - p))) (\<lambda>ls1.
     bindE (wr A_hessians hs i (r * (Fin 1 - r))) (\<lambda>hs1.
     Inr (ls1, hs1)))))))"

definition RankXENDCG_GetGradientsForOneQuery ::
  "(double list \<Rightarrow> nat \<Rightarrow> double list) \<Rightarrow> ('g \<Rightarrow> double \<times> 'g) \<Rightarrow> double \<Rightarrow> 'g RankXENDCG \<Rightarrow>
   nat \<Rightarrow> nat \<Rightarrow> nat list \<Rightarrow> double list \<Rightarrow> double list \<Rightarrow> double list \<Rightarrow>
   error + 'g RankXENDCG \<times> double list \<times> double list"
where
  "RankXENDCG_GetGradientsForOneQuery Softmax NextFloat kEpsilon obj query_id cnt label score
       lambdas_in hessians_in =
     (if cnt \<le> 1 then
        bindE (zero_gradients cnt lambdas_in hessians_in) (\<lambda>(ls, hs). Inr (obj, ls, hs))
      else
        let rho = Softmax score cnt in
        bindE (forE [0..<cnt] (xe_draw_params NextFloat query_id label)
                 (replicate cnt (Fin 0), rands_' obj, Fin 0)) (\<lambda>(params0, rands, denominator).
        let inv_denominator = Fin 1 / c_max kEpsilon denominator in
        bindE (forE [0..<cnt] (xe_first_order rho inv_denominator)
                 (lambdas_in, params0, Fin 0)) (\<lambda>(ls1, params1, sum_l1).
        bindE (forE [0..<cnt] (xe_second_order rho sum_l1)
                 (ls1, params1, Fin 0)) (\<lambda>(ls2, params2, sum_l2).
        bindE (forE [0..<cnt] (xe_third_order rho params2 sum_l2)
                 (ls2, hessians_in)) (\<lambda>(ls3, hs3).
        Inr (obj\<lparr> rands_' := rands \<rparr>, ls3, hs3))))))"

section \<open>The dispatcher\<close>

text \<open>
  \<^verbatim>\<open>RankingObjective::GetGradients\<close>. The parallel loop over the queries runs here in the
  order of the queries; \<open>one_query\<close> is the virtual \<^verbatim>\<open>GetGradientsForOneQuery\<close>, which
  gets the slices that start at the query's first document and returns them with the
  object, whose \<^verbatim>\<open>mutable\<close> members it may change. A negative count does not occur: the
  difference of two boundaries is taken in the natural numbers.
\<close>

definition apply_weights ::
  "double list \<Rightarrow> nat \<Rightarrow> nat \<Rightarrow> double list \<Rightarrow> double list \<Rightarrow> error + double list \<times> double list"
where
  "apply_weights weights start cnt gradients hessians_in =
     forE [0..<cnt] (\<lambda>j (gs, hs).
       bindE (rd A_gradients gs (start + j)) (\<lambda>g.
       bindE (rd A_weights weights (start + j)) (\<lambda>w.
       bindE (wr A_gradients gs (start + j) (g * w)) (\<lambda>gs1.
       bindE (rd A_hessians hs (start + j)) (\<lambda>h.
       bindE (wr A_hessians hs (start + j) (h * w)) (\<lambda>hs1.
       Inr (gs1, hs1))))))) (gradients, hessians_in)"

definition query_gradients ::
  "('a RankingObjective_scheme \<Rightarrow> nat \<Rightarrow> nat \<Rightarrow> nat list \<Rightarrow> double list \<Rightarrow> double list \<Rightarrow> double list \<Rightarrow>
      error + 'a RankingObjective_scheme \<times> double list \<times> double list) \<Rightarrow>
   double list \<Rightarrow> nat \<Rightarrow>
   'a RankingObjective_scheme \<times> double list \<times> double list \<Rightarrow>
   error + 'a RankingObjective_scheme \<times> double list \<times> double list"
where
  "query_gradients one_query score i = (\<lambda>(obj, gradients, hessians_in).
     case query_boundaries_' obj of
       None \<Rightarrow> Inl (OutOfBounds A_query_boundaries)
     | Some qb \<Rightarrow>
         bindE (rd A_query_boundaries qb i) (\<lambda>start.
         bindE (rd A_query_boundaries qb (i + 1)) (\<lambda>next.
         bindE (one_query obj i (next - start) (drop start (label_' obj)) (drop start score)
                  (drop start gradients) (drop start hessians_in)) (\<lambda>(obj1, ls, hs).
         bindE (case weights_' obj of
                  None \<Rightarrow> Inr (take start gradients @ ls, take start hessians_in @ hs)
                | Some weights \<Rightarrow>
                    apply_weights weights start (next - start)
                      (take start gradients @ ls) (take start hessians_in @ hs)) (\<lambda>(gs, hs1).
         Inr (obj1, gs, hs1))))))"

definition RankingObjective_GetGradients ::
  "('a RankingObjective_scheme \<Rightarrow> nat \<Rightarrow> nat \<Rightarrow> nat list \<Rightarrow> double list \<Rightarrow> double list \<Rightarrow> double list \<Rightarrow>
      error + 'a RankingObjective_scheme \<times> double list \<times> double list) \<Rightarrow>
   'a RankingObjective_scheme \<Rightarrow> double list \<Rightarrow> double list \<Rightarrow> double list \<Rightarrow>
   error + 'a RankingObjective_scheme \<times> double list \<times> double list"
where
  "RankingObjective_GetGradients one_query obj score gradients hessians_in =
     forE [0..<num_queries_' obj] (query_gradients one_query score) (obj, gradients, hessians_in)"

text \<open>
  The pairwise computer as the virtual function of the dispatcher: the thread that runs
  query \<open>i\<close> is \<open>thread_of i\<close>, and the cost buffers it leaves are members of the object.
\<close>

definition LambdarankNDCG_one_query ::
  "double \<Rightarrow> (nat \<Rightarrow> double) \<Rightarrow> (nat \<Rightarrow> nat) \<Rightarrow> LambdarankNDCG \<Rightarrow> nat \<Rightarrow> nat \<Rightarrow> nat list \<Rightarrow>
   double list \<Rightarrow> double list \<Rightarrow> double list \<Rightarrow> error + LambdarankNDCG \<times> double list \<times> double list"
where
  "LambdarankNDCG_one_query kMinScore GetDiscount thread_of obj query_id cnt label score
       lambdas_in hessians_in =
     bindE (GetGradientsForOneQuery kMinScore GetDiscount obj (thread_of query_id) query_id cnt
              label score lambdas_in hessians_in) (\<lambda>st.
     Inr (obj\<lparr> i_costs_buffer_' := i_costs_buffer st, j_costs_buffer_' := j_costs_buffer st \<rparr>,
          lambdas st, hessians st))"

definition LambdarankNDCG_GetGradients ::
  "double \<Rightarrow> (nat \<Rightarrow> double) \<Rightarrow> (nat \<Rightarrow> nat) \<Rightarrow> LambdarankNDCG \<Rightarrow> double list \<Rightarrow> double list \<Rightarrow>
   double list \<Rightarrow> error + LambdarankNDCG \<times> double list \<times> double list"
where
  "LambdarankNDCG_GetGradients kMinScore GetDiscount thread_of obj score gradients hessians_in =
     bindE (RankingObjective_GetGradients
              (LambdarankNDCG_one_query kMinScore GetDiscount thread_of)
              obj score gradients hessians_in) (\<lambda>(obj1, gs, hs).
     if unbiased_' obj1
     then bindE (UpdatePositionBiasesAndGradients obj1) (\<lambda>obj2. Inr (obj2, gs, hs))
     else Inr (obj1, gs, hs))"

section \<open>Construction and initialisation\<close>

definition RankingObjective_Init ::
  "Metadata \<Rightarrow> nat \<Rightarrow> 'a RankingObjective_scheme \<Rightarrow> error + 'a RankingObjective_scheme"
where
  "RankingObjective_Init metadata num_data obj =
     (if md_query_boundaries metadata = None
      then Inl (Fatal ''Ranking tasks require query information'')
      else Inr (obj\<lparr> num_data_' := num_data,
                     label_' := md_label metadata,
                     weights_' := md_weights metadata,
                     query_boundaries_' := md_query_boundaries metadata,
                     num_queries_' := md_num_queries metadata \<rparr>))"

text \<open>
  The constructor. \<open>DefaultLabelGain\<close> is \<^verbatim>\<open>DCGCalculator::DefaultLabelGain\<close> and
  \<open>omp_num_threads\<close> what \<^verbatim>\<open>omp_get_num_threads()\<close> returns. Members the constructor
  leaves unset are empty or zero here.
\<close>

definition LambdarankNDCG_new ::
  "(double list \<Rightarrow> double list) \<Rightarrow> nat \<Rightarrow> Config \<Rightarrow> error + LambdarankNDCG"
where
  "LambdarankNDCG_new DefaultLabelGain omp_num_threads config =
     (if sigmoid config \<le> Fin 0
      then Inl (Fatal ''Sigmoid param %f should be greater than zero'')
      else Inr \<lparr> seed_' = objective_seed config, num_queries_' = 0, num_data_' = 0,
                 label_' = [], weights_' = None, query_boundaries_' = None,
                 sigmoid_' = sigmoid config,
                 norm_' = lambdarank_norm config,
                 truncation_level_' = lambdarank_truncation_level config,
                 inverse_max_dcgs_' = [],
                 sigmoid_table_' = [],
                 label_gain_' = DefaultLabelGain (label_gain config),
                 sigmoid_bins' = 1024 * 1024,
                 min_sigmoid_input_' = Fin (- 50),
                 max_sigmoid_input_' = Fin 50,
                 sigmoid_table_idx_factor_' = Fin 0,
                 i_biases_pow_' = [], j_biases_pow_' = [],
                 i_costs_' = [], i_costs_buffer_' = [],
                 j_costs_' = [], j_costs_buffer_' = [],
                 unbiased_' = lambdarank_unbiased config,
                 eta_' = lambdarank_eta config,
                 num_threads_' = omp_num_threads \<rparr>)"

text \<open>
  \<^verbatim>\<open>LambdarankNDCG::Init\<close>. \<open>CheckLabel\<close> and \<open>CalMaxDCGAtK\<close> are functions of
  \<^verbatim>\<open>DCGCalculator\<close>, which is not part of this file; the label check may end with an
  error of its own. \<^verbatim>\<open>inverse_max_dcgs_.resize(num_queries_)\<close> cuts the vector or fills
  it with zeros.
\<close>

definition inverse_max_dcg_of ::
  "(nat \<Rightarrow> nat list \<Rightarrow> nat \<Rightarrow> double) \<Rightarrow> LambdarankNDCG \<Rightarrow> nat \<Rightarrow> double list \<Rightarrow> error + double list"
where
  "inverse_max_dcg_of CalMaxDCGAtK obj i dcgs =
     (case query_boundaries_' obj of
        None \<Rightarrow> Inl (OutOfBounds A_query_boundaries)
      | Some qb \<Rightarrow>
          bindE (rd A_query_boundaries qb i) (\<lambda>start.
          bindE (rd A_query_boundaries qb (i + 1)) (\<lambda>next.
          let max_dcg = CalMaxDCGAtK (truncation_level_' obj) (drop start (label_' obj)) (next - start)
          in wr A_inverse_max_dcgs dcgs i (if Fin 0 < max_dcg then Fin 1 / max_dcg else max_dcg))))"

definition LambdarankNDCG_Init ::
  "(nat list \<Rightarrow> nat \<Rightarrow> error + unit) \<Rightarrow> (nat \<Rightarrow> nat list \<Rightarrow> nat \<Rightarrow> double) \<Rightarrow>
   Metadata \<Rightarrow> nat \<Rightarrow> LambdarankNDCG \<Rightarrow> error + LambdarankNDCG"
where
  "LambdarankNDCG_Init CheckLabel CalMaxDCGAtK metadata num_data obj =
     bindE (RankingObjective_Init metadata num_data obj) (\<lambda>obj1.
     bindE (CheckLabel (label_' obj1) (num_data_' obj1)) (\<lambda>_.
     bindE (forE [0..<num_queries_' obj1] (inverse_max_dcg_of CalMaxDCGAtK obj1)
              (take (num_queries_' obj1)
                 (inverse_max_dcgs_' obj1 @ replicate (num_queries_' obj1) (Fin 0)))) (\<lambda>dcgs.
     Inr (InitPositionBiasesAndGradients
            (ConstructSigmoidTable (obj1\<lparr> inverse_max_dcgs_' := dcgs \<rparr>))))))"

definition RankXENDCG_new :: "Config \<Rightarrow> error + 'g RankXENDCG" where
  "RankXENDCG_new config =
     Inr \<lparr> seed_' = objective_seed config, num_queries_' = 0, num_data_' = 0,
           label_' = [], weights_' = None, query_boundaries_' = None, rands_' = [] \<rparr>"

definition RankXENDCG_Init ::
  "(int \<Rightarrow> 'g) \<Rightarrow> Metadata \<Rightarrow> nat \<Rightarrow> 'g RankXENDCG \<Rightarrow> error + 'g RankXENDCG"
where
  "RankXENDCG_Init Random metadata num_data obj =
     bindE (RankingObjective_Init metadata num_data obj) (\<lambda>obj1.
     Inr (obj1\<lparr> rands_' := rands_' obj1 @
                  map (\<lambda>i. Random (seed_' obj1 + int i)) [0..<num_queries_' obj1] \<rparr>))"

definition RankXENDCG_GetGradients ::
  "(double list \<Rightarrow> nat \<Rightarrow> double list) \<Rightarrow> ('g \<Rightarrow> double \<times> 'g) \<Rightarrow> double \<Rightarrow> 'g RankXENDCG \<Rightarrow>
   double list \<Rightarrow> double list \<Rightarrow> double list \<Rightarrow> error + 'g RankXENDCG \<times> double list \<times> double list"
where
  "RankXENDCG_GetGradients Softmax NextFloat kEpsilon obj score gradients hessians_in =
     RankingObjective_GetGradients
       (RankXENDCG_GetGradientsForOneQuery Softmax NextFloat kEpsilon)
       obj score gradients hessians_in"

section \<open>Kinds of errors\<close>

text \<open>A result that is not a \<^verbatim>\<open>Log::Fatal\<close>.\<close>

definition no_fatal :: "error + 'a \<Rightarrow> bool" where
  "no_fatal r \<longleftrightarrow> (case r of Inl (Fatal m) \<Rightarrow> False | _ \<Rightarrow> True)"

text \<open>
  A result that is not an access outside \<^verbatim>\<open>sorted_idx\<close>, \<^verbatim>\<open>score\<close>, \<^verbatim>\<open>label\<close>,
  \<^verbatim>\<open>lambdas\<close> or \<^verbatim>\<open>hessians\<close>.
\<close>

definition five_arrays_safe :: "error + 'a \<Rightarrow> bool" where
  "five_arrays_safe r \<longleftrightarrow>
     (case r of
        Inl (OutOfBounds a) \<Rightarrow> a \<notin> {A_sorted_idx, A_score, A_label, A_lambdas, A_hessians}
      | _ \<Rightarrow> True)"

section \<open>An example object\<close>

text \<open>
  A configuration with truncation level 2, one thread and unbiased correction, and the
  object the constructor and \<^verbatim>\<open>InitPositionBiasesAndGradients\<close> make of it.
\<close>

definition demo_config :: Config where
  "demo_config = \<lparr> objective_seed = 0, sigmoid = Fin 1, lambdarank_norm = False,
      lambdarank_truncation_level = 2, lambdarank_unbiased = True,
      lambdarank_eta = Fin (1 / 2), label_gain = [Fin 0, Fin 1, Fin 3] \<rparr>"

definition demo_object :: LambdarankNDCG where
  "demo_object =
     InitPositionBiasesAndGradients (projr (LambdarankNDCG_new (\<lambda>g. g) 1 demo_config))"

text \<open>The metadata of one query of two documents, the first more relevant.\<close>

definition demo_metadata :: Metadata where
  "demo_metadata = \<lparr> md_label = [1, 0], md_weights = None,
      md_query_boundaries = Some [0, 2], md_num_queries = 1 \<rparr>"

text \<open>
  The object the constructor makes of a configuration (one thread, the label gains taken
  as they are), and a configuration of steepness 8 with the sigmoid table built for it.
\<close>

definition fresh_object :: "Config \<Rightarrow> LambdarankNDCG" where
  "fresh_object config = projr (LambdarankNDCG_new (\<lambda>g. g) 1 config)"



text \<open>
  \<^verbatim>\<open>DCGCalculator::GetDiscount\<close> is not part of this file, and the theorems take it as a
  parameter. The examples use the function that the comment at its call names,
  \<^verbatim>\<open>1/log2(2 + i)\<close>.
\<close>

definition GetDiscount_log2 :: "nat \<Rightarrow> double" where
  "GetDiscount_log2 r = Fin (1 / log 2 (2 + real r))"

text \<open>
  The object as \<^verbatim>\<open>Init\<close> leaves it, for a configuration and the inverse maximal DCGs of
  the queries.
\<close>

definition ready_object :: "Config \<Rightarrow> double list \<Rightarrow> LambdarankNDCG" where
  "ready_object config dcgs =
     InitPositionBiasesAndGradients
       (ConstructSigmoidTable ((fresh_object config)\<lparr> inverse_max_dcgs_' := dcgs \<rparr>))"

text \<open>
  Configurations with truncation level 3: without normalisation and unbiased correction,
  with normalisation, and with both (and \<^verbatim>\<open>eta_\<close> = 1).
\<close>

definition plain_config :: Config where
  "plain_config = demo_config\<lparr> lambdarank_truncation_level := 3, lambdarank_unbiased := False \<rparr>"

definition norm_config :: Config where
  "norm_config = plain_config\<lparr> lambdarank_norm := True \<rparr>"

definition unbiased_config :: Config where
  "unbiased_config = norm_config\<lparr> lambdarank_unbiased := True, lambdarank_eta := Fin 1 \<rparr>"

text \<open>
  Two objects after an update step. In the first the higher role cost twice as much at
  rank 1 as at rank 0. In the second no pair had its higher label at rank 1 or its lower
  label at rank 2, as after one query whose labels are 1, 0, 2 in rank order.
\<close>

definition tilted_object :: LambdarankNDCG where
  "tilted_object =
     projr (UpdatePositionBiasesAndGradients
       ((ready_object (unbiased_config\<lparr> lambdarank_norm := False \<rparr>) [Fin 1])
          \<lparr> i_costs_buffer_' := [[Fin 1, Fin 2, Fin 1]],
            j_costs_buffer_' := [[Fin 1, Fin 1, Fin 1]] \<rparr>))"

definition zero_bias_object :: LambdarankNDCG where
  "zero_bias_object =
     projr (UpdatePositionBiasesAndGradients
       ((ready_object unbiased_config [Fin 1])
          \<lparr> i_costs_buffer_' := [[Fin 1, Fin 0, Fin 2]],
            j_costs_buffer_' := [[Fin 1, Fin 2, Fin 0]] \<rparr>))"

section \<open>Tools for the proofs\<close>

lemma bindE_Inl [simp]: "bindE (Inl e) f = Inl e" by (simp add: bindE_def)
lemma bindE_Inr [simp]: "bindE (Inr x) f = f x" by (simp add: bindE_def)
lemma bindE_unit [simp]: "bindE m Inr = m" by (cases m) auto
lemma bindE_eq_Inr: "bindE m f = Inr y \<longleftrightarrow> (\<exists>x. m = Inr x \<and> f x = Inr y)"
  by (cases m) auto
lemma rd_in [simp]: "i < length xs \<Longrightarrow> rd a xs i = Inr (xs ! i)" by (simp add: rd_def)
lemma rd_out [simp]: "\<not> i < length xs \<Longrightarrow> rd a xs i = Inl (OutOfBounds a)" by (simp add: rd_def)
lemma wr_in [simp]: "i < length xs \<Longrightarrow> wr a xs i v = Inr (xs[i := v])" by (simp add: wr_def)
lemma wr_out [simp]: "\<not> i < length xs \<Longrightarrow> wr a xs i v = Inl (OutOfBounds a)" by (simp add: wr_def)
lemma rd2_in [simp]: "i < length xss \<Longrightarrow> j < length (xss ! i) \<Longrightarrow> rd2 a xss i j = Inr (xss ! i ! j)"
  by (simp add: rd2_def)
lemma wr2_in [simp]: "i < length xss \<Longrightarrow> j < length (xss ! i) \<Longrightarrow>
   wr2 a xss i j v = Inr (xss[i := (xss ! i)[j := v]])"
  by (simp add: wr2_def)

lemma forE_append: "forE (xs @ ys) body s = bindE (forE xs body s) (forE ys body)"
  by (induction xs arbitrary: s) (auto simp: bindE_def split: sum.splits)

lemma forE_Nil_fun [simp]: "forE [] body = Inr"
  by (rule ext) simp

lemma forE_single [simp]: "forE [n] body = body n"
  by (rule ext) simp

lemma forE_upt_Suc: "forE [0..<Suc n] body s = bindE (forE [0..<n] body s) (body n)"
  by (simp add: forE_append)

lemma forE_upt_invariant:
  assumes "I 0 s"
    and "\<And>i s. i < n \<Longrightarrow> I i s \<Longrightarrow> \<exists>s'. body i s = Inr s' \<and> I (Suc i) s'"
  shows "\<exists>s'. forE [0..<n] body s = Inr s' \<and> I n s'"
  using assms(2)
proof (induction n)
  case 0
  then show ?case using assms(1) by simp
next
  case (Suc n)
  then obtain s1 where s1: "forE [0..<n] body s = Inr s1" "I n s1"
    by (metis less_Suc_eq)
  from Suc.prems[of n s1] s1 obtain s2 where "body n s1 = Inr s2" "I (Suc n) s2" by auto
  with s1 show ?case by (simp add: forE_upt_Suc del: upt_Suc)
qed

lemma fill_step:
  "k < length xs \<Longrightarrow>
   (map f [0..<k] @ drop k xs)[k := f k] = map f [0..<Suc k] @ drop (Suc k) xs"
  by (simp add: list_update_append upd_conv_take_nth_drop flip: Cons_nth_drop_Suc)

lemma fill_nth_old: "k < length xs \<Longrightarrow> k \<le> i \<Longrightarrow> i < length xs \<Longrightarrow> (map f [0..<k] @ drop k xs) ! i = xs ! i"
  by (simp add: nth_append)

lemma clear_loop:
  assumes "length (i_costs_' obj) = n" "length (j_costs_' obj) = n"
  shows "forE [0..<n] clear_costs obj =
     Inr (obj\<lparr> i_costs_' := replicate n (Fin 0), j_costs_' := replicate n (Fin 0) \<rparr>)"
proof -
  let ?I = "\<lambda>k s. s = obj\<lparr> i_costs_' := map (\<lambda>_. Fin 0) [0..<k] @ drop k (i_costs_' obj),
                             j_costs_' := map (\<lambda>_. Fin 0) [0..<k] @ drop k (j_costs_' obj) \<rparr>"
  have "\<exists>s'. forE [0..<n] clear_costs obj = Inr s' \<and> ?I n s'"
  proof (rule forE_upt_invariant)
    show "?I 0 obj" by simp
  next
    fix i s assume "i < n" "?I i s"
    then show "\<exists>s'. clear_costs i s = Inr s' \<and> ?I (Suc i) s'"
      using assms fill_step[of i "i_costs_' obj" "\<lambda>_. Fin 0"] fill_step[of i "j_costs_' obj" "\<lambda>_. Fin 0"]
      by (simp add: clear_costs_def del: upt_Suc)
  qed
  then show ?thesis using assms by (auto simp: map_replicate_const)
qed

lemma update_loop:
  assumes "length (i_biases_pow_' obj) = n" "length (j_biases_pow_' obj) = n"
    "length (i_costs_' obj) = n" "length (j_costs_' obj) = n"
  shows "forE [0..<n] update_bias obj =
     Inr (obj\<lparr> i_biases_pow_' :=
                 map (\<lambda>r. c_pow (i_costs_' obj ! r / i_costs_' obj ! 0) (eta_' obj)) [0..<n],
               j_biases_pow_' :=
                 map (\<lambda>r. c_pow (j_costs_' obj ! r / j_costs_' obj ! 0) (eta_' obj)) [0..<n] \<rparr>)"
proof -
  let ?fi = "\<lambda>r. c_pow (i_costs_' obj ! r / i_costs_' obj ! 0) (eta_' obj)"
  let ?fj = "\<lambda>r. c_pow (j_costs_' obj ! r / j_costs_' obj ! 0) (eta_' obj)"
  let ?I = "\<lambda>k s. s = obj\<lparr> i_biases_pow_' := map ?fi [0..<k] @ drop k (i_biases_pow_' obj),
                             j_biases_pow_' := map ?fj [0..<k] @ drop k (j_biases_pow_' obj) \<rparr>"
  have "\<exists>s'. forE [0..<n] update_bias obj = Inr s' \<and> ?I n s'"
  proof (rule forE_upt_invariant)
    show "?I 0 obj" by simp
  next
    fix i s assume "i < n" "?I i s"
    then show "\<exists>s'. update_bias i s = Inr s' \<and> ?I (Suc i) s'"
      using assms fill_step[of i "i_biases_pow_' obj" ?fi] fill_step[of i "j_biases_pow_' obj" ?fj]
      by (simp add: update_bias_def nth_append del: upt_Suc)
  qed
  then show ?thesis using assms by auto
qed

lemma log_debug:
  assumes "length (i_biases_pow_' obj) = n" "length (j_biases_pow_' obj) = n"
    "length (i_costs_' obj) = n" "length (j_costs_' obj) = n" "truncation_level_' obj = n"
  shows "LogDebugPositionBiases obj = Inr obj"
proof -
  have "\<exists>s'. forE [0..<n] (\<lambda>i s.
       bindE (rd A_i_biases_pow (i_biases_pow_' s) i) (\<lambda>_.
       bindE (rd A_j_biases_pow (j_biases_pow_' s) i) (\<lambda>_.
       bindE (rd A_i_costs (i_costs_' s) i) (\<lambda>_.
       bindE (rd A_j_costs (j_costs_' s) i) (\<lambda>_. Inr s))))) obj = Inr s' \<and> (\<lambda>k s. s = obj) n s'"
    by (rule forE_upt_invariant) (use assms in auto)
  then show ?thesis using assms by (auto simp: LogDebugPositionBiases_def)
qed

lemma accumulate_row:
  assumes "length (i_costs_' obj) = n" "length (j_costs_' obj) = n"
    "i < length (i_costs_buffer_' obj)" "i < length (j_costs_buffer_' obj)"
    "length (i_costs_buffer_' obj ! i) = n" "length (j_costs_buffer_' obj ! i) = n"
  shows "forE [0..<n] (accumulate_costs i) obj =
     Inr (obj\<lparr> i_costs_' := map (\<lambda>r. i_costs_' obj ! r + i_costs_buffer_' obj ! i ! r) [0..<n],
               j_costs_' := map (\<lambda>r. j_costs_' obj ! r + j_costs_buffer_' obj ! i ! r) [0..<n],
               i_costs_buffer_' := (i_costs_buffer_' obj)[i := replicate n (Fin 0)],
               j_costs_buffer_' := (j_costs_buffer_' obj)[i := replicate n (Fin 0)] \<rparr>)"
proof -
  let ?fi = "\<lambda>r. i_costs_' obj ! r + i_costs_buffer_' obj ! i ! r"
  let ?fj = "\<lambda>r. j_costs_' obj ! r + j_costs_buffer_' obj ! i ! r"
  let ?z = "\<lambda>_::nat. Fin 0"
  let ?I = "\<lambda>k s. s = obj\<lparr> i_costs_' := map ?fi [0..<k] @ drop k (i_costs_' obj),
              j_costs_' := map ?fj [0..<k] @ drop k (j_costs_' obj),
              i_costs_buffer_' := (i_costs_buffer_' obj)
                 [i := map ?z [0..<k] @ drop k (i_costs_buffer_' obj ! i)],
              j_costs_buffer_' := (j_costs_buffer_' obj)
                 [i := map ?z [0..<k] @ drop k (j_costs_buffer_' obj ! i)] \<rparr>"
  have "\<exists>s'. forE [0..<n] (accumulate_costs i) obj = Inr s' \<and> ?I n s'"
  proof (rule forE_upt_invariant)
    show "?I 0 obj" by simp
  next
    fix k s assume "k < n" "?I k s"
    then show "\<exists>s'. accumulate_costs i k s = Inr s' \<and> ?I (Suc k) s'"
      using assms fill_step[of k "i_costs_' obj" ?fi] fill_step[of k "j_costs_' obj" ?fj]
        fill_step[of k "i_costs_buffer_' obj ! i" ?z] fill_step[of k "j_costs_buffer_' obj ! i" ?z]
      by (simp add: accumulate_costs_def nth_append del: upt_Suc)
  qed
  then show ?thesis using assms by (auto simp: map_replicate_const)
qed

lemma reduce_closed:
  assumes "bias_state_ok obj"
  shows "\<exists>ic jc. length ic = truncation_level_' obj \<and> length jc = truncation_level_' obj \<and>
     reduce_cost_buffers obj =
       Inr (obj\<lparr> i_costs_' := ic, j_costs_' := jc,
                 i_costs_buffer_' := replicate (num_threads_' obj) (replicate (truncation_level_' obj) (Fin 0)),
                 j_costs_buffer_' := replicate (num_threads_' obj) (replicate (truncation_level_' obj) (Fin 0)) \<rparr>)"
proof -
  let ?n = "truncation_level_' obj"
  let ?z = "\<lambda>_::nat. replicate ?n (Fin 0)"
  let ?S = "\<lambda>t ic jc. obj\<lparr> i_costs_' := ic, j_costs_' := jc,
               i_costs_buffer_' := map ?z [0..<t] @ drop t (i_costs_buffer_' obj),
               j_costs_buffer_' := map ?z [0..<t] @ drop t (j_costs_buffer_' obj) \<rparr>"
  let ?I = "\<lambda>t s. \<exists>ic jc. length ic = ?n \<and> length jc = ?n \<and> s = ?S t ic jc"
  have "\<exists>s'. forE [0..<num_threads_' obj] (\<lambda>i. forE [0..<?n] (accumulate_costs i)) obj = Inr s'
        \<and> ?I (num_threads_' obj) s'"
  proof (rule forE_upt_invariant)
    show "?I 0 obj" using assms
      by (intro exI[of _ "i_costs_' obj"] exI[of _ "j_costs_' obj"]) (simp add: bias_state_ok_def)
  next
    fix t s assume t: "t < num_threads_' obj" and "?I t s"
    then obtain ic jc where ic: "length ic = ?n" "length jc = ?n" and s: "s = ?S t ic jc"
      by blast
    have len: "length (i_costs_buffer_' obj) = num_threads_' obj"
       "length (j_costs_buffer_' obj) = num_threads_' obj"
       "length (i_costs_buffer_' obj ! t) = ?n" "length (j_costs_buffer_' obj ! t) = ?n"
      using assms t by (auto simp: bias_state_ok_def list_all_length)
    let ?ic' = "map (\<lambda>r. i_costs_' s ! r + i_costs_buffer_' s ! t ! r) [0..<?n]"
    let ?jc' = "map (\<lambda>r. j_costs_' s ! r + j_costs_buffer_' s ! t ! r) [0..<?n]"
    have "forE [0..<?n] (accumulate_costs t) s =
       Inr (s\<lparr> i_costs_' := ?ic', j_costs_' := ?jc',
               i_costs_buffer_' := (i_costs_buffer_' s)[t := replicate ?n (Fin 0)],
               j_costs_buffer_' := (j_costs_buffer_' s)[t := replicate ?n (Fin 0)] \<rparr>)"
      by (rule accumulate_row) (use ic s len t in \<open>auto simp: nth_append\<close>)
    moreover have "(map ?z [0..<t] @ drop t (i_costs_buffer_' obj))[t := ?z t]
        = map ?z [0..<Suc t] @ drop (Suc t) (i_costs_buffer_' obj)"
      "(map ?z [0..<t] @ drop t (j_costs_buffer_' obj))[t := ?z t]
        = map ?z [0..<Suc t] @ drop (Suc t) (j_costs_buffer_' obj)"
      using len t fill_step[of t "i_costs_buffer_' obj" ?z] fill_step[of t "j_costs_buffer_' obj" ?z]
      by simp_all
    ultimately have "forE [0..<?n] (accumulate_costs t) s = Inr (?S (Suc t) ?ic' ?jc')"
      by (simp add: s del: upt_Suc)
    then show "\<exists>s'. forE [0..<?n] (accumulate_costs t) s = Inr s' \<and> ?I (Suc t) s'"
      by (intro exI[of _ "?S (Suc t) ?ic' ?jc'"] conjI exI[of _ ?ic'] exI[of _ ?jc']) simp_all
  qed
  then show ?thesis
    using assms by (auto simp: reduce_cost_buffers_def bias_state_ok_def map_replicate_const)
qed

lemma Update_closed:
  assumes "bias_state_ok obj"
  shows "\<exists>obj1. reduce_cost_buffers obj = Inr obj1 \<and>
     length (i_costs_' obj1) = truncation_level_' obj \<and>
     length (j_costs_' obj1) = truncation_level_' obj \<and>
     UpdatePositionBiasesAndGradients obj =
       Inr (obj\<lparr> i_biases_pow_' :=
                   map (\<lambda>r. c_pow (i_costs_' obj1 ! r / i_costs_' obj1 ! 0) (eta_' obj))
                     [0..<truncation_level_' obj],
                 j_biases_pow_' :=
                   map (\<lambda>r. c_pow (j_costs_' obj1 ! r / j_costs_' obj1 ! 0) (eta_' obj))
                     [0..<truncation_level_' obj],
                 i_costs_' := replicate (truncation_level_' obj) (Fin 0),
                 j_costs_' := replicate (truncation_level_' obj) (Fin 0),
                 i_costs_buffer_' := replicate (num_threads_' obj) (replicate (truncation_level_' obj) (Fin 0)),
                 j_costs_buffer_' := replicate (num_threads_' obj) (replicate (truncation_level_' obj) (Fin 0)) \<rparr>)"
proof -
  let ?n = "truncation_level_' obj"
  from reduce_closed[OF assms] obtain ic jc where
    ic: "length ic = ?n" "length jc = ?n" and
    red: "reduce_cost_buffers obj =
       Inr (obj\<lparr> i_costs_' := ic, j_costs_' := jc,
                 i_costs_buffer_' := replicate (num_threads_' obj) (replicate ?n (Fin 0)),
                 j_costs_buffer_' := replicate (num_threads_' obj) (replicate ?n (Fin 0)) \<rparr>)"
      (is "_ = Inr ?obj1")
    by blast
  have l: "length (i_biases_pow_' ?obj1) = ?n" "length (j_biases_pow_' ?obj1) = ?n"
    "length (i_costs_' ?obj1) = ?n" "length (j_costs_' ?obj1) = ?n" "truncation_level_' ?obj1 = ?n"
    using assms ic by (simp_all add: bias_state_ok_def)
  note lg = log_debug[OF l]
  note up = update_loop[OF l(1-4)]
  show ?thesis
    apply (rule exI[of _ ?obj1])
    apply (simp add: red UpdatePositionBiasesAndGradients_def lg up ic)
    apply (subst clear_loop[where n = ?n])
      apply (simp_all add: ic)
    done
qed

lemma div_self_double: "finite_nonzero x \<Longrightarrow> x / x = Fin 1"
  by (cases x) auto

lemma div_self_double_iff: "x / x = Fin 1 \<longleftrightarrow> finite_nonzero x"
  by (cases x) (auto simp: inf_of_sign_def)

lemma c_pow_one_iff: "c_pow (x / x) e = Fin 1 \<longleftrightarrow> e = Fin 0 \<or> finite_nonzero x"
proof (cases "finite_nonzero x")
  case True
  then show ?thesis by (simp add: div_self_double c_pow_def)
next
  case False
  then have "x / x = NaN" by (cases x) (auto simp: inf_of_sign_def)
  then show ?thesis using False by (simp add: c_pow_def)
qed

lemma c_pow_zero_cost:
  assumes "finite_nonzero c" "Fin 0 < e"
  shows "c_pow (Fin 0 / c) e = Fin 0"
proof -
  obtain b where c: "c = Fin b" "b \<noteq> 0" using assms(1) by (cases c) auto
  have e: "e \<noteq> Fin 0" "e \<noteq> NaN" "\<not> e < Fin 0"
    using assms(2) by (cases e; simp)+
  show ?thesis
    using assms(2) c e by (cases e) (simp_all add: c_pow_def)
qed

lemma upt_0_2: "[0..<2] = [0, 1]"
  by (simp add: upt_rec)

lemma replicate_2: "replicate 2 x = [x, x]"
  by (simp add: numeral_2_eq_2)

lemmas demo_defs = demo_object_def demo_config_def LambdarankNDCG_new_def
  InitPositionBiasesAndGradients_def

lemmas update_defs = UpdatePositionBiasesAndGradients_def reduce_cost_buffers_def
  accumulate_costs_def LogDebugPositionBiases_def update_bias_def clear_costs_def
  upt_0_2 replicate_2 c_pow_def inf_of_sign_def is_integer_def is_odd_integer_def

lemma demo_object_ok: "bias_state_ok demo_object"
  by (simp add: demo_defs bias_state_ok_def)

text \<open>No function of the gradient computation ends with \<^verbatim>\<open>Log::Fatal\<close>.\<close>

named_theorems nf

lemma nf_Inr [nf]: "no_fatal (Inr x)" by (simp add: no_fatal_def)
lemma nf_oob [nf]: "no_fatal (Inl (OutOfBounds a))" by (simp add: no_fatal_def)
lemma nf_cast [nf]: "no_fatal (Inl BadCast)" by (simp add: no_fatal_def)
lemma nf_bind [nf]: "no_fatal m \<Longrightarrow> (\<And>x. no_fatal (f x)) \<Longrightarrow> no_fatal (bindE m f)"
  by (cases m) (auto simp: no_fatal_def)
lemma nf_rd [nf]: "no_fatal (rd a xs i)" by (simp add: rd_def nf)
lemma nf_wr [nf]: "no_fatal (wr a xs i v)" by (simp add: wr_def nf)
lemma nf_rd2 [nf]: "no_fatal (rd2 a xs i j)" by (simp add: rd2_def nf)
lemma nf_wr2 [nf]: "no_fatal (wr2 a xs i j v)" by (simp add: wr2_def nf)
lemma nf_if [nf]: "no_fatal a \<Longrightarrow> no_fatal b \<Longrightarrow> no_fatal (if c then a else b)" by simp
lemma nf_prod [nf]: "(\<And>a b. no_fatal (f a b)) \<Longrightarrow> no_fatal (case p of (a, b) \<Rightarrow> f a b)"
  by (cases p) simp
lemma nf_let [nf]: "no_fatal (f v) \<Longrightarrow> no_fatal (Let v f)" by simp
lemma nf_option [nf]: "no_fatal a \<Longrightarrow> (\<And>x. no_fatal (f x)) \<Longrightarrow> no_fatal (case v of None \<Rightarrow> a | Some x \<Rightarrow> f x)"
  by (cases v) auto
lemma nf_forE [nf]: "(\<And>i s. no_fatal (body i s)) \<Longrightarrow> no_fatal (forE xs body s)"
  by (induction xs arbitrary: s) (auto intro!: nf)
lemma nf_to_size_t [nf]: "no_fatal (to_size_t x)"
  by (cases x) (auto simp: to_size_t_def nf)
lemma nf_GetSigmoid [nf]: "no_fatal (GetSigmoid obj x)"
  unfolding GetSigmoid_def by (intro nf)
lemma nf_add_pair_cost [nf]: "no_fatal (add_pair_cost obj tid h l p d st)"
  unfolding add_pair_cost_def by (intro nf)
lemma nf_add_pair_gradients [nf]: "no_fatal (add_pair_gradients h l p q st)"
  unfolding add_pair_gradients_def by (intro nf)
lemma nf_pair_contribution [nf]: "no_fatal (pair_contribution G obj tid imd b w si la sc h l st)"
  unfolding pair_contribution_def by (intro nf)
lemma nf_pair_body [nf]: "no_fatal (pair_body k G obj tid imd b w si la sc i j st)"
  unfolding pair_body_def by (intro nf)
lemma nf_rank_body [nf]: "no_fatal (rank_body k G obj tid imd b w cnt si la sc i st)"
  unfolding rank_body_def by (intro nf)
lemma nf_zero_gradients [nf]: "no_fatal (zero_gradients cnt ls hs)"
  unfolding zero_gradients_def by (intro nf)
lemma nf_accumulate_pairs [nf]: "no_fatal (accumulate_pairs k G obj tid q cnt la sc ls hs)"
  unfolding accumulate_pairs_def by (intro nf)
lemma nf_normalize [nf]: "no_fatal (normalize obj cnt st)"
  unfolding normalize_def normalize_body_def by (intro nf)
lemma nf_GetGradientsForOneQuery [nf]: "no_fatal (GetGradientsForOneQuery k G obj tid q cnt la sc ls hs)"
  unfolding GetGradientsForOneQuery_def by (intro nf)
lemma nf_one_query [nf]: "no_fatal (LambdarankNDCG_one_query k G t obj q cnt la sc ls hs)"
  unfolding LambdarankNDCG_one_query_def by (intro nf)
lemma nf_apply_weights [nf]: "no_fatal (apply_weights w start cnt gs hs)"
  unfolding apply_weights_def by (intro nf)
lemma nf_query_gradients [nf]:
  "(\<And>obj i cnt la sc ls hs. no_fatal (one_query obj i cnt la sc ls hs)) \<Longrightarrow>
   no_fatal (query_gradients one_query score i s)"
  unfolding query_gradients_def by (intro nf) 
lemma nf_RankingObjective_GetGradients [nf]:
  "(\<And>obj i cnt la sc ls hs. no_fatal (one_query obj i cnt la sc ls hs)) \<Longrightarrow>
   no_fatal (RankingObjective_GetGradients one_query obj score gs hs)"
  unfolding RankingObjective_GetGradients_def by (intro nf) 
lemma nf_Update [nf]: "no_fatal (UpdatePositionBiasesAndGradients obj)"
  unfolding UpdatePositionBiasesAndGradients_def reduce_cost_buffers_def accumulate_costs_def
    LogDebugPositionBiases_def update_bias_def clear_costs_def by (intro nf)
lemma nf_LambdarankNDCG_GetGradients: "no_fatal (LambdarankNDCG_GetGradients k G t obj score gs hs)"
  unfolding LambdarankNDCG_GetGradients_def by (intro nf)
lemma nf_xe_one [nf]: "no_fatal (RankXENDCG_GetGradientsForOneQuery S N e obj q cnt la sc ls hs)"
  unfolding RankXENDCG_GetGradientsForOneQuery_def xe_draw_params_def xe_first_order_def
    xe_second_order_def xe_third_order_def by (intro nf)
lemma nf_RankXENDCG_GetGradients: "no_fatal (RankXENDCG_GetGradients S N e obj score gs hs)"
  unfolding RankXENDCG_GetGradients_def by (intro nf)

lemma inverse_max_dcg_loop:
  assumes "query_boundaries_' obj = Some qb" "n < length qb" "n \<le> length dcgs"
  shows "\<exists>dcgs'. forE [0..<n] (inverse_max_dcg_of M obj) dcgs = Inr dcgs'"
proof -
  have "\<exists>s'. forE [0..<n] (inverse_max_dcg_of M obj) dcgs = Inr s' \<and> (\<lambda>k s. length s = length dcgs) n s'"
    by (rule forE_upt_invariant) (use assms in \<open>auto simp: inverse_max_dcg_of_def Let_def\<close>)
  then show ?thesis by blast
qed

text \<open>What a returning step of the pair loops leaves unchanged.\<close>

lemma rd_eq_Inr: "rd a xs i = Inr x \<longleftrightarrow> i < length xs \<and> x = xs ! i"
  by (auto simp: rd_def)
lemma wr_eq_Inr: "wr a xs i v = Inr ys \<longleftrightarrow> i < length xs \<and> ys = xs[i := v]"
  by (auto simp: wr_def)
lemma rd2_eq_Inr: "rd2 a xss i j = Inr x \<longleftrightarrow> i < length xss \<and> j < length (xss ! i) \<and> x = xss ! i ! j"
  by (auto simp: rd2_def bindE_eq_Inr rd_eq_Inr)
lemma wr2_eq_Inr: "wr2 a xss i j v = Inr yss \<longleftrightarrow>
    i < length xss \<and> j < length (xss ! i) \<and> yss = xss[i := (xss ! i)[j := v]]"
  by (auto simp: wr2_def bindE_eq_Inr rd_eq_Inr wr_eq_Inr)

lemmas Inr_iffs = bindE_eq_Inr rd_eq_Inr wr_eq_Inr rd2_eq_Inr wr2_eq_Inr

lemma forE_invariant:
  assumes "forE xs body s = Inr s'" "I s"
    and "\<And>i s s'. i \<in> set xs \<Longrightarrow> I s \<Longrightarrow> body i s = Inr s' \<Longrightarrow> I s'"
  shows "I s'"
  using assms
proof (induction xs arbitrary: s)
  case Nil
  then show ?case by simp
next
  case (Cons x xs)
  from Cons.prems(1) obtain s1 where s1: "body x s = Inr s1" "forE xs body s1 = Inr s'"
    by (auto simp: bindE_eq_Inr)
  have "I s1" using Cons.prems(2,3) s1(1) by auto
  then show ?case using Cons.IH[OF s1(2)] Cons.prems(3) by auto
qed

lemma add_pair_cost_frame:
  "add_pair_cost obj tid hr lr p d st = Inr st' \<Longrightarrow>
   lambdas st' = lambdas st \<and> hessians st' = hessians st \<and> sum_lambdas st' = sum_lambdas st"
  by (auto simp: add_pair_cost_def Let_def Inr_iffs)

lemma add_pair_gradients_Inr:
  "add_pair_gradients high low p h st = Inr st' \<longleftrightarrow>
     low < length (lambdas st) \<and> low < length (hessians st) \<and>
     high < length (lambdas st) \<and> high < length (hessians st) \<and>
     st' = st\<lparr> lambdas := (lambdas st)[low := lambdas st ! low - p,
                   high := (lambdas st)[low := lambdas st ! low - p] ! high + p],
               hessians := (hessians st)[low := hessians st ! low + h,
                   high := (hessians st)[low := hessians st ! low + h] ! high + h],
               sum_lambdas := sum_lambdas st - Fin 2 * p \<rparr>"
  by (auto simp: add_pair_gradients_def Inr_iffs)

lemma bindE_InrE:
  assumes "bindE m f = Inr y"
  obtains x where "m = Inr x" "f x = Inr y"
  using assms by (auto simp: bindE_eq_Inr)

lemma add_pair_gradients_frame:
  assumes "add_pair_gradients high low p h st = Inr st'"
  shows "length (lambdas st') = length (lambdas st) \<and> length (hessians st') = length (hessians st) \<and>
     (\<forall>d. d \<noteq> high \<and> d \<noteq> low \<longrightarrow>
        lambdas st' ! d = lambdas st ! d \<and> hessians st' ! d = hessians st ! d)"
  using assms by (simp add: add_pair_gradients_Inr)

lemma pair_contribution_frame:
  assumes "pair_contribution G obj tid imd best worst sorted_idx label score hr lr st = Inr st'"
  shows "length (lambdas st') = length (lambdas st) \<and> length (hessians st') = length (hessians st) \<and>
     hr < length sorted_idx \<and> lr < length sorted_idx \<and>
     (\<forall>d. d \<noteq> sorted_idx ! hr \<and> d \<noteq> sorted_idx ! lr \<longrightarrow>
        lambdas st' ! d = lambdas st ! d \<and> hessians st' ! d = hessians st ! d)"
proof -
  from assms obtain high low p st1 pl ph where
    h: "rd A_sorted_idx sorted_idx hr = Inr high" and
    l: "rd A_sorted_idx sorted_idx lr = Inr low" and
    c: "(if unbiased_' obj then add_pair_cost obj tid hr lr p
           (if (norm_' obj \<or> unbiased_' obj) \<and> \<not> deq best worst
            then (label_gain_' obj ! (label ! high) - label_gain_' obj ! (label ! low)) *
                 \<bar>G hr - G lr\<bar> * imd / (Fin (1 / 100) + \<bar>score ! high - score ! low\<bar>)
            else (label_gain_' obj ! (label ! high) - label_gain_' obj ! (label ! low)) *
                 \<bar>G hr - G lr\<bar> * imd) st
         else Inr st) = Inr st1" and
    g: "add_pair_gradients high low pl ph st1 = Inr st'"
    unfolding pair_contribution_def Let_def
    by (elim bindE_InrE) (simp add: rd_eq_Inr)
  have s1: "lambdas st1 = lambdas st \<and> hessians st1 = hessians st"
    using c add_pair_cost_frame by (auto split: if_splits)
  show ?thesis
    using add_pair_gradients_frame[OF g] h l s1 by (simp add: rd_eq_Inr)
qed

lemma pair_body_frame:
  assumes "pair_body kMin G obj tid imd best worst sorted_idx label score i j st = Inr st'"
  shows "length (lambdas st') = length (lambdas st) \<and> length (hessians st') = length (hessians st) \<and>
     j < length sorted_idx \<and> sorted_idx ! j < length score \<and>
     (deq (score ! (sorted_idx ! j)) kMin \<longrightarrow> st' = st) \<and>
     (\<forall>d. d \<noteq> sorted_idx ! i \<and> d \<noteq> sorted_idx ! j \<longrightarrow>
        lambdas st' ! d = lambdas st ! d \<and> hessians st' ! d = hessians st ! d)"
proof -
  from assms obtain sj score_j where
    a: "rd A_sorted_idx sorted_idx j = Inr sj" "rd A_score score sj = Inr score_j" and
    b: "(if deq score_j kMin then Inr st
     else
       bindE (rd A_sorted_idx sorted_idx i) (\<lambda>si.
       bindE (rd A_label label si) (\<lambda>label_i.
       bindE (rd A_label label sj) (\<lambda>label_j.
       if label_i = label_j then Inr st
       else
         pair_contribution G obj tid imd best worst
           sorted_idx label score
           (if label_j < label_i then i else j) (if label_j < label_i then j else i) st)))) = Inr st'"
    unfolding pair_body_def by (elim bindE_InrE)
  show ?thesis
  proof (cases "deq score_j kMin")
    case True
    then show ?thesis using a b by (simp add: rd_eq_Inr)
  next
    case False
    with b have "bindE (rd A_sorted_idx sorted_idx i) (\<lambda>si.
       bindE (rd A_label label si) (\<lambda>label_i.
       bindE (rd A_label label sj) (\<lambda>label_j.
       if label_i = label_j then Inr st
       else
         pair_contribution G obj tid imd best worst
           sorted_idx label score
           (if label_j < label_i then i else j) (if label_j < label_i then j else i) st))) = Inr st'"
      by simp
    then obtain si and label_i label_j :: nat where
      c: "rd A_sorted_idx sorted_idx i = Inr si" and
      d: "(if label_i = label_j then Inr st
       else
         pair_contribution G obj tid imd best worst
           sorted_idx label score
           (if label_j < label_i then i else j) (if label_j < label_i then j else i) st) = Inr st'"
      by (elim bindE_InrE)
    show ?thesis
    proof (cases "label_i = label_j")
      case True
      then show ?thesis using a d False by (simp add: rd_eq_Inr)
    next
      case ne: False
      with d have e: "pair_contribution G obj tid imd best worst
           sorted_idx label score
           (if label_j < label_i then i else j) (if label_j < label_i then j else i) st = Inr st'"
        by simp
      show ?thesis
        using pair_contribution_frame[OF e] a False by (auto simp: rd_eq_Inr)
    qed
  qed
qed

lemma forE_upt_Inr_invariant:
  assumes "forE [0..<n] body s = Inr s'" "I 0 s"
    and "\<And>i s s'. i < n \<Longrightarrow> I i s \<Longrightarrow> body i s = Inr s' \<Longrightarrow> I (Suc i) s'"
  shows "I n s'"
  using assms(1,3)
proof (induction n arbitrary: s')
  case 0
  then show ?case using assms(2) by simp
next
  case (Suc n)
  from Suc.prems(1) obtain s1 where s1: "forE [0..<n] body s = Inr s1" "body n s1 = Inr s'"
    by (auto simp: forE_upt_Suc bindE_eq_Inr simp del: upt_Suc)
  have "I n s1" using Suc.IH[OF s1(1)] Suc.prems(2) by auto
  then show ?case using Suc.prems(2)[of n s1 s'] s1(2) by auto
qed

lemma fill_const_step:
  "k < length xs \<Longrightarrow> (replicate k c @ drop k xs)[k := c] = replicate (Suc k) c @ drop (Suc k) xs"
  using fill_step[of k xs "\<lambda>_. c"] by (simp add: map_replicate_const del: upt_Suc)

lemma zero_gradients_Inr:
  assumes "zero_gradients cnt ls hs = Inr (ls', hs')"
  shows "cnt \<le> length ls \<and> cnt \<le> length hs \<and>
     ls' = replicate cnt (Fin 0) @ drop cnt ls \<and> hs' = replicate cnt (Fin 0) @ drop cnt hs"
proof -
  let ?I = "\<lambda>k (p :: double list \<times> double list). k \<le> length ls \<and> k \<le> length hs \<and>
     p = (replicate k (Fin 0) @ drop k ls, replicate k (Fin 0) @ drop k hs)"
  have "?I cnt (ls', hs')"
  proof (rule forE_upt_Inr_invariant[where I = ?I])
    show "forE [0..<cnt] (\<lambda>i (ls, hs).
       bindE (wr A_lambdas ls i (Fin 0)) (\<lambda>ls'.
       bindE (wr A_hessians hs i (Fin 0)) (\<lambda>hs'. Inr (ls', hs')))) (ls, hs) = Inr (ls', hs')"
      using assms by (simp add: zero_gradients_def)
    show "?I 0 (ls, hs)" by simp
  next
    fix i s s'
    assume "i < cnt" "?I i s"
      "(case s of (ls, hs) \<Rightarrow>
         bindE (wr A_lambdas ls i (Fin 0)) (\<lambda>ls'.
         bindE (wr A_hessians hs i (Fin 0)) (\<lambda>hs'. Inr (ls', hs')))) = Inr s'"
    then show "?I (Suc i) s'"
      by (auto simp: Inr_iffs fill_const_step)
  qed
  then show ?thesis by simp
qed

lemma zero_gradients_total:
  assumes "cnt \<le> length ls" "cnt \<le> length hs"
  shows "zero_gradients cnt ls hs =
     Inr (replicate cnt (Fin 0) @ drop cnt ls, replicate cnt (Fin 0) @ drop cnt hs)"
proof -
  let ?I = "\<lambda>k (p :: double list \<times> double list).
     p = (replicate k (Fin 0) @ drop k ls, replicate k (Fin 0) @ drop k hs)"
  have "\<exists>s'. forE [0..<cnt] (\<lambda>i (ls, hs).
       bindE (wr A_lambdas ls i (Fin 0)) (\<lambda>ls'.
       bindE (wr A_hessians hs i (Fin 0)) (\<lambda>hs'. Inr (ls', hs')))) (ls, hs) = Inr s' \<and> ?I cnt s'"
  proof (rule forE_upt_invariant)
    show "?I 0 (ls, hs)" by simp
  next
    fix i s assume "i < cnt" "?I i s"
    then show "\<exists>s'. (case s of (ls, hs) \<Rightarrow>
         bindE (wr A_lambdas ls i (Fin 0)) (\<lambda>ls'.
         bindE (wr A_hessians hs i (Fin 0)) (\<lambda>hs'. Inr (ls', hs')))) = Inr s' \<and> ?I (Suc i) s'"
      using assms by (auto simp: fill_const_step)
  qed
  then show ?thesis by (auto simp: zero_gradients_def)
qed

lemma rank_body_sentinel:
  assumes "rank_body kMin G obj tid imd best worst cnt sorted_idx label score i st = Inr st'"
  shows "length (lambdas st') = length (lambdas st) \<and> length (hessians st') = length (hessians st) \<and>
     (\<forall>d. deq (score ! d) kMin \<longrightarrow>
        lambdas st' ! d = lambdas st ! d \<and> hessians st' ! d = hessians st ! d)"
proof -
  from assms obtain si score_i where
    a: "rd A_sorted_idx sorted_idx i = Inr si" "rd A_score score si = Inr score_i" and
    b: "(if deq score_i kMin then Inr st
     else forE [i + 1..<cnt]
         (pair_body kMin G obj tid imd best worst sorted_idx label score i) st) = Inr st'"
    unfolding rank_body_def by (elim bindE_InrE)
  show ?thesis
  proof (cases "deq score_i kMin")
    case True
    then show ?thesis using b by simp
  next
    case False
    with b have f: "forE [i + 1..<cnt]
         (pair_body kMin G obj tid imd best worst sorted_idx label score i) st = Inr st'"
      by simp
    have ni: "\<not> deq (score ! (sorted_idx ! i)) kMin"
      using a False by (simp add: rd_eq_Inr)
    let ?I = "\<lambda>s. length (lambdas s) = length (lambdas st) \<and>
       length (hessians s) = length (hessians st) \<and>
       (\<forall>d. deq (score ! d) kMin \<longrightarrow>
          lambdas s ! d = lambdas st ! d \<and> hessians s ! d = hessians st ! d)"
    show ?thesis
    proof (rule forE_invariant[OF f, where I = ?I])
      show "?I st" by simp
    next
      fix j s s'
      assume "?I s" and
        p: "pair_body kMin G obj tid imd best worst sorted_idx label score i j s = Inr s'"
      note I = this(1)
      note fr = pair_body_frame[OF p]
      have "lambdas s' ! d = lambdas s ! d \<and> hessians s' ! d = hessians s ! d"
        if d: "deq (score ! d) kMin" for d
      proof (cases "deq (score ! (sorted_idx ! j)) kMin")
        case True
        then have "s' = s" using fr by simp
        then show ?thesis by simp
      next
        case False
        then have "d \<noteq> sorted_idx ! j" "d \<noteq> sorted_idx ! i"
          using d ni by auto
        then show ?thesis using fr by simp
      qed
      then show "?I s'"
        using I fr by simp
    qed
  qed
qed

lemma length_insert_desc [simp]: "length (insert_desc key x ys) = Suc (length ys)"
  by (induction ys) auto

lemma set_insert_desc [simp]: "set (insert_desc key x ys) = insert x (set ys)"
  by (induction ys) auto

lemma length_stable_sort_desc [simp]: "length (stable_sort_desc key xs) = length xs"
  by (induction xs) (auto simp: stable_sort_desc_def)

lemma set_stable_sort_desc [simp]: "set (stable_sort_desc key xs) = set xs"
  by (induction xs) (auto simp: stable_sort_desc_def)

lemma sorted_idx_bound:
  "i < cnt \<Longrightarrow> stable_sort_desc key [0..<cnt] ! i < cnt"
  using nth_mem[of i "stable_sort_desc key [0..<cnt]"] by simp

lemma accumulate_pairs_Inr:
  assumes "accumulate_pairs kMin G obj tid q cnt label score ls hs = Inr st"
  shows "1 \<le> cnt \<and> cnt \<le> length ls \<and> cnt \<le> length hs \<and> cnt \<le> length score \<and>
     length (lambdas st) = length ls \<and> length (hessians st) = length hs \<and>
     (\<forall>d < cnt. deq (score ! d) kMin \<longrightarrow> lambdas st ! d = Fin 0 \<and> hessians st ! d = Fin 0)"
proof -
  let ?sorted = "stable_sort_desc (\<lambda>a. score ! a) [0..<cnt]"
  from assms obtain imd z where
    z: "zero_gradients cnt ls hs = Inr z" and
    r: "(case z of (lambdas0, hessians0) \<Rightarrow>
     if length score < cnt then Inl (OutOfBounds A_score)
     else
       let sorted_idx = ?sorted in
       bindE (rd A_sorted_idx sorted_idx 0) (\<lambda>s0.
       bindE (rd A_score score s0) (\<lambda>best_score.
       bindE (if 0 < cnt - 1
              then bindE (rd A_sorted_idx sorted_idx (cnt - 1)) (\<lambda>sw.
                   bindE (rd A_score score sw) (\<lambda>score_w.
                   Inr (if deq score_w kMin then cnt - 1 - 1 else cnt - 1)))
              else Inr (cnt - 1)) (\<lambda>worst_idx.
       bindE (rd A_sorted_idx sorted_idx worst_idx) (\<lambda>sw.
       bindE (rd A_score score sw) (\<lambda>worst_score.
       forE [0..<min (cnt - 1) (truncation_level_' obj)]
         (rank_body kMin G obj tid imd best_score worst_score
            cnt sorted_idx label score)
         \<lparr> lambdas = lambdas0, hessians = hessians0, sum_lambdas = Fin 0,
           i_costs_buffer = i_costs_buffer_' obj, j_costs_buffer = j_costs_buffer_' obj \<rparr>)))))) = Inr st"
    unfolding accumulate_pairs_def by (elim bindE_InrE)
  obtain ls0 hs0 where z0: "z = (ls0, hs0)" by (cases z)
  note zg = zero_gradients_Inr[OF z[unfolded z0]]
  from r z0 have sc: "cnt \<le> length score"
    by (auto split: if_splits)
  with r z0 obtain s0 best worst where
    s0: "rd A_sorted_idx ?sorted 0 = Inr s0" and
    f: "forE [0..<min (cnt - 1) (truncation_level_' obj)]
         (rank_body kMin G obj tid imd best worst cnt ?sorted label score)
         \<lparr> lambdas = ls0, hessians = hs0, sum_lambdas = Fin 0,
           i_costs_buffer = i_costs_buffer_' obj, j_costs_buffer = j_costs_buffer_' obj \<rparr> = Inr st"
    by (simp add: Let_def) (elim bindE_InrE)
  have c1: "1 \<le> cnt" using s0 by (simp add: rd_eq_Inr)
  let ?st0 = "\<lparr> lambdas = ls0, hessians = hs0, sum_lambdas = Fin 0,
           i_costs_buffer = i_costs_buffer_' obj, j_costs_buffer = j_costs_buffer_' obj \<rparr>"
  let ?I = "\<lambda>s. length (lambdas s) = length ls0 \<and> length (hessians s) = length hs0 \<and>
       (\<forall>d. deq (score ! d) kMin \<longrightarrow> lambdas s ! d = ls0 ! d \<and> hessians s ! d = hs0 ! d)"
  have I: "?I st"
  proof (rule forE_invariant[OF f, where I = ?I])
    show "?I ?st0" by simp
  next
    fix i s s'
    assume "?I s" and
      b: "rank_body kMin G obj tid imd best worst cnt ?sorted label score i s = Inr s'"
    then show "?I s'" using rank_body_sentinel[OF b] by simp
  qed
  have "ls0 ! d = Fin 0 \<and> hs0 ! d = Fin 0" if "d < cnt" for d
    using that zg by (simp add: nth_append)
  then show ?thesis
    using I zg c1 sc by simp
qed

lemma map_nth_take: "n \<le> length xs \<Longrightarrow> map (\<lambda>i. g (xs ! i)) [0..<n] = map g (take n xs)"
  by (auto intro!: nth_equalityI)

lemma normalize_loop:
  assumes "cnt \<le> length (lambdas st)" "cnt \<le> length (hessians st)"
  shows "forE [0..<cnt] (normalize_body f) st =
     Inr (st\<lparr> lambdas := map (\<lambda>x. x * f) (take cnt (lambdas st)) @ drop cnt (lambdas st),
              hessians := map (\<lambda>x. x * f) (take cnt (hessians st)) @ drop cnt (hessians st) \<rparr>)"
proof -
  let ?fl = "\<lambda>i. lambdas st ! i * f"
  let ?fh = "\<lambda>i. hessians st ! i * f"
  let ?I = "\<lambda>k s. s = st\<lparr> lambdas := map ?fl [0..<k] @ drop k (lambdas st),
                             hessians := map ?fh [0..<k] @ drop k (hessians st) \<rparr>"
  have "\<exists>s'. forE [0..<cnt] (normalize_body f) st = Inr s' \<and> ?I cnt s'"
  proof (rule forE_upt_invariant)
    show "?I 0 st" by simp
  next
    fix i s assume "i < cnt" "?I i s"
    then show "\<exists>s'. normalize_body f i s = Inr s' \<and> ?I (Suc i) s'"
      using assms fill_step[of i "lambdas st" ?fl] fill_step[of i "hessians st" ?fh]
      by (simp add: normalize_body_def nth_append del: upt_Suc)
  qed
  then show ?thesis
    using assms map_nth_take[of cnt "lambdas st" "\<lambda>x. x * f"]
      map_nth_take[of cnt "hessians st" "\<lambda>x. x * f"]
    by auto
qed

lemma finite_norm_factor:
  assumes "Fin 0 < s" "s \<noteq> PInf"
  shows "\<exists>f. c_log2 (Fin 1 + s) / s = Fin f"
proof -
  from assms obtain a where "s = Fin a" "0 < a" by (cases s) auto
  then show ?thesis by simp
qed

text \<open>Accesses to the five arrays of a query stay inside them.\<close>

named_theorems sf

lemma sf_Inr [sf]: "five_arrays_safe (Inr x)" by (simp add: five_arrays_safe_def)
lemma sf_cast [sf]: "five_arrays_safe (Inl BadCast)" by (simp add: five_arrays_safe_def)
lemma sf_bind: "five_arrays_safe m \<Longrightarrow> (\<And>x. m = Inr x \<Longrightarrow> five_arrays_safe (f x)) \<Longrightarrow> five_arrays_safe (bindE m f)"
  by (cases m) (auto simp: five_arrays_safe_def)
lemma sf_rd:
  "(a \<in> {A_sorted_idx, A_score, A_label, A_lambdas, A_hessians} \<Longrightarrow> i < length xs) \<Longrightarrow>
   five_arrays_safe (rd a xs i)"
  by (auto simp: rd_def five_arrays_safe_def)
lemma sf_wr:
  "(a \<in> {A_sorted_idx, A_score, A_label, A_lambdas, A_hessians} \<Longrightarrow> i < length xs) \<Longrightarrow>
   five_arrays_safe (wr a xs i v)"
  by (auto simp: wr_def five_arrays_safe_def)
lemma sf_rd2:
  "a \<notin> {A_sorted_idx, A_score, A_label, A_lambdas, A_hessians} \<Longrightarrow> five_arrays_safe (rd2 a xs i j)"
  unfolding rd2_def by (intro sf_bind sf_rd) auto
lemma sf_wr2:
  "a \<notin> {A_sorted_idx, A_score, A_label, A_lambdas, A_hessians} \<Longrightarrow> five_arrays_safe (wr2 a xs i j v)"
  unfolding wr2_def by (intro sf_bind sf_rd sf_wr) auto
lemma sf_to_size_t [sf]: "five_arrays_safe (to_size_t x)"
  by (cases x) (auto simp: to_size_t_def sf)
lemma sf_GetSigmoid [sf]: "five_arrays_safe (GetSigmoid obj x)"
  unfolding GetSigmoid_def by (auto intro!: sf sf_bind sf_rd)
lemma sf_add_pair_cost [sf]: "five_arrays_safe (add_pair_cost obj tid hr lr p d st)"
  unfolding add_pair_cost_def Let_def by (intro sf_bind sf_rd sf_rd2 sf_wr2 sf) auto

lemma sf_add_pair_gradients:
  assumes "high < length (lambdas st)" "high < length (hessians st)"
     "low < length (lambdas st)" "low < length (hessians st)"
  shows "five_arrays_safe (add_pair_gradients high low p h st)"
  using assms by (simp add: add_pair_gradients_def sf)

lemma sf_forE:
  assumes "I s"
    and "\<And>i s. i \<in> set xs \<Longrightarrow> I s \<Longrightarrow> five_arrays_safe (body i s)"
    and "\<And>i s s'. i \<in> set xs \<Longrightarrow> I s \<Longrightarrow> body i s = Inr s' \<Longrightarrow> I s'"
  shows "five_arrays_safe (forE xs body s)"
  using assms
proof (induction xs arbitrary: s)
  case Nil
  then show ?case by (simp add: sf)
next
  case (Cons x xs)
  show ?case
    unfolding forE.simps
  proof (rule sf_bind)
    show "five_arrays_safe (body x s)" using Cons.prems by simp
  next
    fix s1 assume "body x s = Inr s1"
    then have s1: "I s1" using Cons.prems(1) Cons.prems(3)[of x s s1] by simp
    show "five_arrays_safe (forE xs body s1)"
    proof (rule Cons.IH)
      show "I s1" by (fact s1)
      show "\<And>i s. i \<in> set xs \<Longrightarrow> I s \<Longrightarrow> five_arrays_safe (body i s)"
        using Cons.prems(2) by simp
      show "\<And>i s s'. i \<in> set xs \<Longrightarrow> I s \<Longrightarrow> body i s = Inr s' \<Longrightarrow> I s'"
        using Cons.prems(3) by (meson list.set_intros(2))
    qed
  qed
qed

lemma sf_if: "five_arrays_safe a \<Longrightarrow> five_arrays_safe b \<Longrightarrow> five_arrays_safe (if c then a else b)"
  by simp

lemma sf_pair_contribution:
  assumes "hr < length sorted_idx" "lr < length sorted_idx"
    "sorted_idx ! hr < n" "sorted_idx ! lr < n"
    "n \<le> length label" "n \<le> length score" "n \<le> length (lambdas st)" "n \<le> length (hessians st)"
  shows "five_arrays_safe (pair_contribution G obj tid imd best worst sorted_idx label score hr lr st)"
  unfolding pair_contribution_def Let_def
proof (intro sf_bind sf_rd sf sf_if, goal_cases)
  case (11 high high_label high_score hg low low_label low_score lg p st1 ib jb)
  then have "lambdas st1 = lambdas st \<and> hessians st1 = hessians st"
    using add_pair_cost_frame by (auto split: if_splits)
  moreover have "high = sorted_idx ! hr" "low = sorted_idx ! lr"
    using 11 by (simp_all add: rd_eq_Inr)
  ultimately show ?case
    using assms by (intro sf_add_pair_gradients) simp_all
qed (use assms in \<open>simp_all add: rd_eq_Inr\<close>)

lemma sf_pair_body:
  assumes "i < length sorted_idx" "j < length sorted_idx"
    "\<forall>k < length sorted_idx. sorted_idx ! k < n"
    "n \<le> length label" "n \<le> length score" "n \<le> length (lambdas st)" "n \<le> length (hessians st)"
  shows "five_arrays_safe (pair_body kMin G obj tid imd best worst sorted_idx label score i j st)"
  unfolding pair_body_def
  by (intro sf_bind sf_rd sf sf_if sf_pair_contribution[where n = n])
     (use assms in \<open>auto simp: rd_eq_Inr\<close>)

lemma sf_rank_body:
  assumes "i < length sorted_idx" "cnt \<le> length sorted_idx"
    "\<forall>k < length sorted_idx. sorted_idx ! k < n"
    "n \<le> length label" "n \<le> length score" "n \<le> length (lambdas st)" "n \<le> length (hessians st)"
  shows "five_arrays_safe (rank_body kMin G obj tid imd best worst cnt sorted_idx label score i st)"
  unfolding rank_body_def
proof (intro sf_bind sf_rd sf sf_if, goal_cases)
  case (3 si score_i)
  let ?I = "\<lambda>s :: pair_state. n \<le> length (lambdas s) \<and> n \<le> length (hessians s)"
  show ?case
  proof (rule sf_forE[where I = ?I])
    show "?I st" using assms by simp
  next
    fix j s assume "j \<in> set [i + 1..<cnt]" "?I s"
    then show "five_arrays_safe (pair_body kMin G obj tid imd best worst sorted_idx label score i j s)"
      using assms by (intro sf_pair_body[where n = n]) auto
  next
    fix j s s' assume "?I s"
      "pair_body kMin G obj tid imd best worst sorted_idx label score i j s = Inr s'"
    then show "?I s'" using pair_body_frame by fastforce
  qed
qed (use assms in \<open>auto simp: rd_eq_Inr\<close>)

lemma sf_if': "(c \<Longrightarrow> five_arrays_safe a) \<Longrightarrow> (\<not> c \<Longrightarrow> five_arrays_safe b) \<Longrightarrow>
   five_arrays_safe (if c then a else b)"
  by simp

lemma sf_prod: "(\<And>a b. p = (a, b) \<Longrightarrow> five_arrays_safe (f a b)) \<Longrightarrow>
   five_arrays_safe (case p of (a, b) \<Rightarrow> f a b)"
  by (cases p) simp

lemma sf_let: "five_arrays_safe (f v) \<Longrightarrow> five_arrays_safe (Let v f)"
  by simp

lemma sf_zero_gradients:
  "cnt \<le> length ls \<Longrightarrow> cnt \<le> length hs \<Longrightarrow> five_arrays_safe (zero_gradients cnt ls hs)"
  by (simp add: zero_gradients_total sf)

lemma sf_accumulate_pairs:
  assumes "1 \<le> cnt" "cnt \<le> length label" "cnt \<le> length score"
    "cnt \<le> length ls" "cnt \<le> length hs"
  shows "five_arrays_safe (accumulate_pairs kMin G obj tid q cnt label score ls hs)"
proof -
  let ?sorted = "stable_sort_desc (\<lambda>a. score ! a) [0..<cnt]"
  have b: "\<forall>k < length ?sorted. ?sorted ! k < cnt"
    using sorted_idx_bound by simp
  have l: "length ?sorted = cnt" by simp
  have sb: "stable_sort_desc ((!) score) [0..<cnt] ! k < length score" if "k < cnt" for k
    using sorted_idx_bound[OF that, of "(!) score"] assms by simp
  let ?I = "\<lambda>s :: pair_state. cnt \<le> length (lambdas s) \<and> cnt \<le> length (hessians s)"
  show ?thesis
    unfolding accumulate_pairs_def
  proof (intro sf_bind sf_rd sf sf_if' sf_prod sf_let sf_zero_gradients, goal_cases)
    case (11 imd z ls0 hs0 s0 best worst_idx sw worst)
    then have z: "ls0 = replicate cnt (Fin 0) @ drop cnt ls" "hs0 = replicate cnt (Fin 0) @ drop cnt hs"
      using zero_gradients_Inr[of cnt ls hs ls0 hs0] by simp_all
    show ?case
    proof (rule sf_forE[where I = ?I])
      show "?I \<lparr>lambdas = ls0, hessians = hs0, sum_lambdas = Fin 0,
                 i_costs_buffer = i_costs_buffer_' obj, j_costs_buffer = j_costs_buffer_' obj\<rparr>"
        using assms z by simp
    next
      fix i s assume "i \<in> set [0..<min (cnt - 1) (truncation_level_' obj)]" "?I s"
      then show "five_arrays_safe
          (rank_body kMin G obj tid imd best worst cnt ?sorted label score i s)"
        using assms b by (intro sf_rank_body[where n = cnt]) auto
    next
      fix i s s' assume "?I s"
        "rank_body kMin G obj tid imd best worst cnt ?sorted label score i s = Inr s'"
      then show "?I s'" using rank_body_sentinel by fastforce
    qed
  qed (use assms l sb in \<open>auto simp: rd_eq_Inr bindE_eq_Inr split: if_splits\<close>)
qed

lemma sf_GetGradientsForOneQuery:
  assumes "1 \<le> cnt" "cnt \<le> length label" "cnt \<le> length score"
    "cnt \<le> length ls" "cnt \<le> length hs"
  shows "five_arrays_safe (GetGradientsForOneQuery kMin G obj tid q cnt label score ls hs)"
  unfolding GetGradientsForOneQuery_def
proof (rule sf_bind)
  show "five_arrays_safe (accumulate_pairs kMin G obj tid q cnt label score ls hs)"
    using assms by (rule sf_accumulate_pairs)
next
  fix st assume a: "accumulate_pairs kMin G obj tid q cnt label score ls hs = Inr st"
  from accumulate_pairs_Inr[OF a]
  have "cnt \<le> length (lambdas st)" "cnt \<le> length (hessians st)" by simp_all
  then show "five_arrays_safe (normalize obj cnt st)"
    by (simp add: normalize_def normalize_loop sf)
qed

lemma empty_query_faults:
  "GetGradientsForOneQuery kMin G obj tid q 0 label score ls hs =
     (if q < length (inverse_max_dcgs_' obj) then Inl (OutOfBounds A_sorted_idx)
      else Inl (OutOfBounds A_inverse_max_dcgs))"
  by (simp add: GetGradientsForOneQuery_def accumulate_pairs_def zero_gradients_def
      stable_sort_desc_def)

lemma one_document_query:
  assumes "1 \<le> length ls" "1 \<le> length hs" "1 \<le> length score" "q < length (inverse_max_dcgs_' obj)"
  shows "GetGradientsForOneQuery kMin G obj tid q 1 label score ls hs =
     Inr \<lparr> lambdas = replicate 1 (Fin 0) @ drop 1 ls, hessians = replicate 1 (Fin 0) @ drop 1 hs,
           sum_lambdas = Fin 0,
           i_costs_buffer = i_costs_buffer_' obj, j_costs_buffer = j_costs_buffer_' obj \<rparr>"
  using assms
  by (simp add: GetGradientsForOneQuery_def accumulate_pairs_def zero_gradients_total
      stable_sort_desc_def normalize_def Suc_le_eq)

lemma pairwise_Inr_domain:
  assumes "GetGradientsForOneQuery kMin G obj tid q cnt label score ls hs = Inr st"
  shows "1 \<le> cnt \<and> cnt \<le> length ls \<and> cnt \<le> length hs \<and> cnt \<le> length score \<and>
     q < length (inverse_max_dcgs_' obj)"
proof -
  from assms obtain st0 where
    a: "accumulate_pairs kMin G obj tid q cnt label score ls hs = Inr st0"
    unfolding GetGradientsForOneQuery_def by (elim bindE_InrE)
  from a have "q < length (inverse_max_dcgs_' obj)"
    unfolding accumulate_pairs_def by (elim bindE_InrE) (simp add: rd_eq_Inr)
  then show ?thesis using accumulate_pairs_Inr[OF a] by simp
qed

lemma xendcg_small:
  assumes "cnt \<le> 1" "cnt \<le> length ls" "cnt \<le> length hs"
  shows "RankXENDCG_GetGradientsForOneQuery S N e xobj q cnt label score ls hs =
     Inr (xobj, replicate cnt (Fin 0) @ drop cnt ls, replicate cnt (Fin 0) @ drop cnt hs)"
  using assms by (simp add: RankXENDCG_GetGradientsForOneQuery_def zero_gradients_total)

subsection \<open>The sigmoid table\<close>

lemma one_plus_exp_pos [simp]: "0 < 1 + exp (t::real)"
  by (simp add: add_pos_pos)

lemma one_plus_exp_ne0 [simp]: "1 + exp (t::real) \<noteq> 0"
  using one_plus_exp_pos[of t] by linarith

lemma construct_fields:
  assumes "sigmoid_' obj = Fin s" "0 < s" "min_sigmoid_input_' obj = Fin (- m)" "0 < m"
    "sigmoid_bins' obj = n" "0 < n"
  shows "min_sigmoid_input_' (ConstructSigmoidTable obj) = Fin (- (m / (2 * s)))"
    "max_sigmoid_input_' (ConstructSigmoidTable obj) = Fin (m / (2 * s))"
    "sigmoid_table_idx_factor_' (ConstructSigmoidTable obj) = Fin (real n * s / m)"
    "sigmoid_table_' (ConstructSigmoidTable obj) =
       map (\<lambda>i. Fin (1 / (1 + exp (s * (real i * (m / (real n * s)) - m / (2 * s)))))) [0..<n]"
    "sigmoid_bins' (ConstructSigmoidTable obj) = n"
    "sigmoid_' (ConstructSigmoidTable obj) = Fin s"
  using assms
  by (simp_all add: ConstructSigmoidTable_def Let_def minus_double_def field_simps)


lemma bin_of_input:
  fixes r m s :: real and n :: nat
  assumes "0 < s" "0 < m" "0 < n" "- (m / (2 * s)) < r" "r < m / (2 * s)"
  defines "k \<equiv> nat \<lfloor>(r + m / (2 * s)) * (real n * s / m)\<rfloor>"
  shows "k < n"
    and "real k * (m / (real n * s)) - m / (2 * s) \<le> r"
    and "r < real k * (m / (real n * s)) - m / (2 * s) + m / (real n * s)"
    and "- 1 < (r + m / (2 * s)) * (real n * s / m)"
    and "real k \<le> (r + m / (2 * s)) * (real n * s / m)"
    and "(r + m / (2 * s)) * (real n * s / m) < real k + 1"
proof -
  let ?y = "(r + m / (2 * s)) * (real n * s / m)"
  let ?h = "m / (real n * s)"
  have f: "0 < real n * s / m" using assms by simp
  have y0: "0 < ?y" using assms f by (intro mult_pos_pos) auto
  have "?y < (m / (2 * s) + m / (2 * s)) * (real n * s / m)"
    using assms f by (intro mult_strict_right_mono) auto
  also have "\<dots> = real n" using assms by (simp add: field_simps)
  finally have yn: "?y < real n" .
  have k: "real k = of_int \<lfloor>?y\<rfloor>"
    using y0 by (simp add: k_def)
  have "\<lfloor>?y\<rfloor> < int n" using yn by (simp add: floor_less_iff)
  moreover have "0 \<le> \<lfloor>?y\<rfloor>" using y0 by simp
  ultimately show "k < n" unfolding k_def by linarith
  have h: "0 < ?h" using assms by simp
  have yh: "?y * ?h = r + m / (2 * s)"
    using assms by (simp add: field_simps)
  show ky: "real k \<le> ?y" by (simp add: k)
  then have "real k * ?h \<le> ?y * ?h"
    using h by (intro mult_right_mono) auto
  then show "real k * ?h - m / (2 * s) \<le> r"
    using yh by simp
  show ky1: "?y < real k + 1" by (simp add: k)
  then have "?y * ?h < (real k + 1) * ?h"
    using h by (intro mult_strict_right_mono) auto
  then have "r + m / (2 * s) < (real k + 1) * ?h"
    unfolding yh .
  also have "(real k + 1) * ?h = real k * ?h + ?h"
    unfolding distrib_right by simp
  finally show "r < real k * ?h - m / (2 * s) + ?h"
    by linarith
  show "- 1 < ?y" using y0 by simp
qed

lemma GetSigmoid_inside:
  assumes "sigmoid_' obj = Fin s" "0 < s" "min_sigmoid_input_' obj = Fin (- m)" "0 < m"
    "sigmoid_bins' obj = n" "0 < n" "- (m / (2 * s)) < r" "r < m / (2 * s)"
  shows "to_size_t ((Fin r - min_sigmoid_input_' (ConstructSigmoidTable obj)) *
            sigmoid_table_idx_factor_' (ConstructSigmoidTable obj)) =
           Inr (nat \<lfloor>(r + m / (2 * s)) * (real n * s / m)\<rfloor>)"
    and "GetSigmoid (ConstructSigmoidTable obj) (Fin r) =
      Inr (sigmoid_table_' (ConstructSigmoidTable obj) ! nat \<lfloor>(r + m / (2 * s)) * (real n * s / m)\<rfloor>)"
    and "sigmoid_table_' (ConstructSigmoidTable obj) ! nat \<lfloor>(r + m / (2 * s)) * (real n * s / m)\<rfloor>
      = Fin (1 / (1 + exp (s * (real (nat \<lfloor>(r + m / (2 * s)) * (real n * s / m)\<rfloor>)
                 * (m / (real n * s)) - m / (2 * s)))))"
proof -
  note c = construct_fields[OF assms(1-6)]
  note b = bin_of_input[OF assms(2,4,6,7,8)]
  show t: "to_size_t ((Fin r - min_sigmoid_input_' (ConstructSigmoidTable obj)) *
            sigmoid_table_idx_factor_' (ConstructSigmoidTable obj)) =
           Inr (nat \<lfloor>(r + m / (2 * s)) * (real n * s / m)\<rfloor>)"
    using b(4) by (simp add: c to_size_t_def minus_double_def)
  show "GetSigmoid (ConstructSigmoidTable obj) (Fin r) =
      Inr (sigmoid_table_' (ConstructSigmoidTable obj) ! nat \<lfloor>(r + m / (2 * s)) * (real n * s / m)\<rfloor>)"
    unfolding GetSigmoid_def t
    using assms(7,8) b(1) by (simp add: c)
  show "sigmoid_table_' (ConstructSigmoidTable obj) ! nat \<lfloor>(r + m / (2 * s)) * (real n * s / m)\<rfloor>
      = Fin (1 / (1 + exp (s * (real (nat \<lfloor>(r + m / (2 * s)) * (real n * s / m)\<rfloor>)
                 * (m / (real n * s)) - m / (2 * s)))))"
    using b(1) by (simp add: c)
qed


lemma fresh_object_fields:
  "Fin 0 < sigmoid config \<Longrightarrow> sigmoid_' (fresh_object config) = sigmoid config"
  "Fin 0 < sigmoid config \<Longrightarrow> min_sigmoid_input_' (fresh_object config) = Fin (- 50)"
  "Fin 0 < sigmoid config \<Longrightarrow> sigmoid_bins' (fresh_object config) = 1048576"
  by (cases "sigmoid config"; simp add: fresh_object_def LambdarankNDCG_new_def)+







subsection \<open>Evaluating the pairwise computer\<close>

lemma GetSigmoid_Init [simp]:
  "GetSigmoid (InitPositionBiasesAndGradients obj) x = GetSigmoid obj x"
  by (simp add: GetSigmoid_def InitPositionBiasesAndGradients_def Let_def)

lemma GetSigmoid_zero:
  assumes "sigmoid_' obj0 = Fin s" "0 < s" "min_sigmoid_input_' obj0 = Fin (- 50)"
    "sigmoid_bins' obj0 = 1048576"
  shows "GetSigmoid (ConstructSigmoidTable obj0) (Fin 0) = Inr (Fin (1 / 2))"
proof -
  have k: "nat \<lfloor>(0 + 50 / (2 * s)) * (real (1048576 :: nat) * s / 50)\<rfloor> = 524288"
    using assms(2) by simp
  show ?thesis
    using GetSigmoid_inside(2,3)[of obj0 s 50 1048576 0] assms
    unfolding k by simp
qed

lemma pair_contribution_eval:
  assumes "hr < length sorted_idx" "lr < length sorted_idx"
    "sorted_idx ! hr < length label" "sorted_idx ! lr < length label"
    "sorted_idx ! hr < length score" "sorted_idx ! lr < length score"
    "label ! (sorted_idx ! hr) < length (label_gain_' obj)"
    "label ! (sorted_idx ! lr) < length (label_gain_' obj)"
    "GetSigmoid obj (score ! (sorted_idx ! hr) - score ! (sorted_idx ! lr)) = Inr p"
    "hr < length (i_biases_pow_' obj)" "lr < length (j_biases_pow_' obj)"
    "delta0 = (label_gain_' obj ! (label ! (sorted_idx ! hr)) -
               label_gain_' obj ! (label ! (sorted_idx ! lr))) *
              \<bar>G hr - G lr\<bar> * imd"
    "delta = (if (norm_' obj \<or> unbiased_' obj) \<and> \<not> deq best worst
              then delta0 / (Fin (1 / 100) + \<bar>score ! (sorted_idx ! hr) - score ! (sorted_idx ! lr)\<bar>)
              else delta0)"
  shows "pair_contribution G obj tid imd best worst sorted_idx label score hr lr st =
     bindE (if unbiased_' obj then add_pair_cost obj tid hr lr p delta st else Inr st)
       (\<lambda>st1. add_pair_gradients (sorted_idx ! hr) (sorted_idx ! lr)
          (p * (- sigmoid_' obj * delta / i_biases_pow_' obj ! hr / j_biases_pow_' obj ! lr))
          (p * (Fin 1 - p) *
             (sigmoid_' obj * sigmoid_' obj * delta / i_biases_pow_' obj ! hr / j_biases_pow_' obj ! lr))
          st1)"
  using assms(1-11) unfolding assms(12,13) pair_contribution_def
  by (simp add: Let_def)

lemma pair_body_eval:
  assumes "i < length sorted_idx" "j < length sorted_idx"
    "sorted_idx ! i < length label" "sorted_idx ! j < length label"
    "sorted_idx ! j < length score"
  shows "pair_body kMin G obj tid imd best worst sorted_idx label score i j st =
     (if deq (score ! (sorted_idx ! j)) kMin \<or> label ! (sorted_idx ! i) = label ! (sorted_idx ! j)
      then Inr st
      else pair_contribution G obj tid imd best worst sorted_idx label score
             (if label ! (sorted_idx ! j) < label ! (sorted_idx ! i) then i else j)
             (if label ! (sorted_idx ! j) < label ! (sorted_idx ! i) then j else i) st)"
  using assms unfolding pair_body_def by simp

lemma rank_body_eval:
  assumes "i < length sorted_idx" "sorted_idx ! i < length score"
  shows "rank_body kMin G obj tid imd best worst cnt sorted_idx label score i st =
     (if deq (score ! (sorted_idx ! i)) kMin then Inr st
      else forE [i + 1..<cnt]
             (pair_body kMin G obj tid imd best worst sorted_idx label score i) st)"
  using assms unfolding rank_body_def by simp

lemma upt_0_3: "[0..<3] = [0, 1, 2]"
  by (simp add: upt_rec)

lemma upt_1_3: "[Suc 0..<3] = [1, 2]"
  by (simp add: upt_rec)

lemma upt_2_3: "[Suc (Suc 0)..<3] = [2]"
  by (simp add: upt_rec)

lemma replicate_3: "replicate 3 x = [x, x, x]"
  by (simp add: numeral_3_eq_3)

lemma ready_fields:
  "sigmoid_' (InitPositionBiasesAndGradients (ConstructSigmoidTable obj0)) = sigmoid_' obj0"
  "norm_' (InitPositionBiasesAndGradients (ConstructSigmoidTable obj0)) = norm_' obj0"
  "unbiased_' (InitPositionBiasesAndGradients (ConstructSigmoidTable obj0)) = unbiased_' obj0"
  "truncation_level_' (InitPositionBiasesAndGradients (ConstructSigmoidTable obj0)) =
     truncation_level_' obj0"
  "label_gain_' (InitPositionBiasesAndGradients (ConstructSigmoidTable obj0)) = label_gain_' obj0"
  "inverse_max_dcgs_' (InitPositionBiasesAndGradients (ConstructSigmoidTable obj0)) =
     inverse_max_dcgs_' obj0"
  "i_biases_pow_' (InitPositionBiasesAndGradients (ConstructSigmoidTable obj0)) =
     replicate (truncation_level_' obj0) (Fin 1)"
  "j_biases_pow_' (InitPositionBiasesAndGradients (ConstructSigmoidTable obj0)) =
     replicate (truncation_level_' obj0) (Fin 1)"
  "i_costs_buffer_' (InitPositionBiasesAndGradients (ConstructSigmoidTable obj0)) =
     i_costs_buffer_' obj0 @ replicate (num_threads_' obj0) (replicate (truncation_level_' obj0) (Fin 0))"
  "j_costs_buffer_' (InitPositionBiasesAndGradients (ConstructSigmoidTable obj0)) =
     j_costs_buffer_' obj0 @ replicate (num_threads_' obj0) (replicate (truncation_level_' obj0) (Fin 0))"
  "i_costs_' (InitPositionBiasesAndGradients (ConstructSigmoidTable obj0)) =
     replicate (truncation_level_' obj0) (Fin 0)"
  "j_costs_' (InitPositionBiasesAndGradients (ConstructSigmoidTable obj0)) =
     replicate (truncation_level_' obj0) (Fin 0)"
  "num_threads_' (InitPositionBiasesAndGradients (ConstructSigmoidTable obj0)) = num_threads_' obj0"
  "eta_' (InitPositionBiasesAndGradients (ConstructSigmoidTable obj0)) = eta_' obj0"
  by (simp_all add: InitPositionBiasesAndGradients_def ConstructSigmoidTable_def Let_def)

lemma GetSigmoid_bias_update [simp]:
  "GetSigmoid (obj\<lparr> i_biases_pow_' := x \<rparr>) = GetSigmoid obj"
  "GetSigmoid (obj\<lparr> j_biases_pow_' := x \<rparr>) = GetSigmoid obj"
  "GetSigmoid (obj\<lparr> i_costs_' := x \<rparr>) = GetSigmoid obj"
  "GetSigmoid (obj\<lparr> j_costs_' := x \<rparr>) = GetSigmoid obj"
  "GetSigmoid (obj\<lparr> i_costs_buffer_' := y \<rparr>) = GetSigmoid obj"
  "GetSigmoid (obj\<lparr> j_costs_buffer_' := y \<rparr>) = GetSigmoid obj"
  by (simp_all add: GetSigmoid_def fun_eq_iff)

lemma fresh_fields:
  assumes "Fin 0 < sigmoid config"
  shows "sigmoid_' (fresh_object config) = sigmoid config"
    "min_sigmoid_input_' (fresh_object config) = Fin (- 50)"
    "sigmoid_bins' (fresh_object config) = 1048576"
    "norm_' (fresh_object config) = lambdarank_norm config"
    "unbiased_' (fresh_object config) = lambdarank_unbiased config"
    "truncation_level_' (fresh_object config) = lambdarank_truncation_level config"
    "label_gain_' (fresh_object config) = label_gain config"
    "i_costs_buffer_' (fresh_object config) = []"
    "j_costs_buffer_' (fresh_object config) = []"
    "num_threads_' (fresh_object config) = 1"
    "eta_' (fresh_object config) = lambdarank_eta config"
  using assms by (cases "sigmoid config"; simp add: fresh_object_def LambdarankNDCG_new_def)+

lemma ready_object_fields:
  assumes "Fin 0 < sigmoid config"
  shows "sigmoid_' (ready_object config dcgs) = sigmoid config"
    "norm_' (ready_object config dcgs) = lambdarank_norm config"
    "unbiased_' (ready_object config dcgs) = lambdarank_unbiased config"
    "truncation_level_' (ready_object config dcgs) = lambdarank_truncation_level config"
    "label_gain_' (ready_object config dcgs) = label_gain config"
    "inverse_max_dcgs_' (ready_object config dcgs) = dcgs"
    "i_biases_pow_' (ready_object config dcgs) =
       replicate (lambdarank_truncation_level config) (Fin 1)"
    "j_biases_pow_' (ready_object config dcgs) =
       replicate (lambdarank_truncation_level config) (Fin 1)"
    "i_costs_buffer_' (ready_object config dcgs) =
       [replicate (lambdarank_truncation_level config) (Fin 0)]"
    "j_costs_buffer_' (ready_object config dcgs) =
       [replicate (lambdarank_truncation_level config) (Fin 0)]"
    "i_costs_' (ready_object config dcgs) = replicate (lambdarank_truncation_level config) (Fin 0)"
    "j_costs_' (ready_object config dcgs) = replicate (lambdarank_truncation_level config) (Fin 0)"
    "num_threads_' (ready_object config dcgs) = 1"
    "eta_' (ready_object config dcgs) = lambdarank_eta config"
  unfolding ready_object_def ready_fields
  by (simp_all add: fresh_fields[OF assms])

lemma ready_object_sigmoid:
  assumes "sigmoid config = Fin s" "0 < s"
  shows "GetSigmoid (ready_object config dcgs) (Fin 0) = Inr (Fin (1 / 2))"
proof -
  have p: "Fin 0 < sigmoid config" using assms by simp
  show ?thesis
    unfolding ready_object_def GetSigmoid_Init
    by (rule GetSigmoid_zero[where s = s]) (simp_all add: fresh_fields[OF p] assms)
qed

lemma config_simps:
  "sigmoid plain_config = Fin 1" "lambdarank_norm plain_config = False"
  "lambdarank_unbiased plain_config = False" "lambdarank_truncation_level plain_config = 3"
  "label_gain plain_config = [Fin 0, Fin 1, Fin 3]"
  "sigmoid norm_config = Fin 1" "lambdarank_norm norm_config = True"
  "lambdarank_unbiased norm_config = False" "lambdarank_truncation_level norm_config = 3"
  "label_gain norm_config = [Fin 0, Fin 1, Fin 3]"
  "sigmoid demo_config = Fin 1" "lambdarank_norm demo_config = False"
  "lambdarank_unbiased demo_config = True" "lambdarank_truncation_level demo_config = 2"
  "label_gain demo_config = [Fin 0, Fin 1, Fin 3]"
  "sigmoid unbiased_config = Fin 1" "lambdarank_norm unbiased_config = True"
  "lambdarank_unbiased unbiased_config = True" "lambdarank_truncation_level unbiased_config = 3"
  "label_gain unbiased_config = [Fin 0, Fin 1, Fin 3]" "lambdarank_eta unbiased_config = Fin 1"
  by (simp_all add: plain_config_def norm_config_def demo_config_def unbiased_config_def)

lemma discount_values:
  "GetDiscount_log2 0 = Fin 1" "GetDiscount_log2 (Suc 0) = Fin (1 / log 2 3)"
  "GetDiscount_log2 2 = Fin (1 / 2)"
proof -
  have "log 2 4 = log 2 (2 ^ 2)" by simp
  also have "\<dots> = 2" by (subst log_nat_power) simp_all
  finally show "GetDiscount_log2 2 = Fin (1 / 2)" by (simp add: GetDiscount_log2_def)
qed (simp_all add: GetDiscount_log2_def)

lemma discount_gap: "0 < 1 - 1 / log 2 (3::real)" "\<bar>1 - 1 / log 2 (3::real)\<bar> = 1 - 1 / log 2 3"
proof -
  have "log 2 2 < log 2 (3::real)" by (subst log_less_cancel_iff) simp_all
  then have "1 < log 2 (3::real)" by simp
  then show "0 < 1 - 1 / log 2 (3::real)" by simp
  then show "\<bar>1 - 1 / log 2 (3::real)\<bar> = 1 - 1 / log 2 3" by simp
qed

lemma upt_Suc0_2: "[Suc 0..<2] = [1]"
  by (simp add: upt_rec)

lemmas eval_defs = accumulate_pairs_def rank_body_def pair_body_def pair_contribution_def
  add_pair_gradients_def add_pair_cost_def Let_def minus_double_def rd2_def wr2_def
  upt_0_2 upt_1_3 upt_2_3 upt_Suc0_2 replicate_2 replicate_3 zero_gradients_def upt_0_3
  stable_sort_desc_def

lemma zero_bias_object_eq:
  "zero_bias_object = (ready_object unbiased_config [Fin 1])
          \<lparr>i_costs_buffer_' := [[Fin 0, Fin 0, Fin 0]],
             j_costs_buffer_' := [[Fin 0, Fin 0, Fin 0]],
             i_biases_pow_' := [Fin 1, Fin 0, Fin 2],
             j_biases_pow_' := [Fin 1, Fin 2, Fin 0],
             i_costs_' := [Fin 0, Fin 0, Fin 0],
             j_costs_' := [Fin 0, Fin 0, Fin 0]\<rparr>"
  unfolding zero_bias_object_def
  by (simp add: update_defs ready_object_fields config_simps upt_0_3 replicate_3)

lemma tilted_object_eq:
  "tilted_object = (ready_object (unbiased_config\<lparr> lambdarank_norm := False \<rparr>) [Fin 1])
          \<lparr>i_costs_buffer_' := [[Fin 0, Fin 0, Fin 0]],
             j_costs_buffer_' := [[Fin 0, Fin 0, Fin 0]],
             i_biases_pow_' := [Fin 1, Fin 2, Fin 1],
             j_biases_pow_' := [Fin 1, Fin 1, Fin 1],
             i_costs_' := [Fin 0, Fin 0, Fin 0],
             j_costs_' := [Fin 0, Fin 0, Fin 0]\<rparr>"
  unfolding tilted_object_def
  by (simp add: update_defs ready_object_fields config_simps upt_0_3 replicate_3)

lemma normalize_closed:
  assumes "cnt \<le> length (lambdas st)" "cnt \<le> length (hessians st)"
  shows "normalize obj cnt st =
     Inr (if norm_' obj \<and> Fin 0 < sum_lambdas st
          then st\<lparr> lambdas :=
                      map (\<lambda>x. x * (c_log2 (Fin 1 + sum_lambdas st) / sum_lambdas st))
                        (take cnt (lambdas st)) @ drop cnt (lambdas st),
                    hessians :=
                      map (\<lambda>x. x * (c_log2 (Fin 1 + sum_lambdas st) / sum_lambdas st))
                        (take cnt (hessians st)) @ drop cnt (hessians st) \<rparr>
          else st)"
  using assms by (simp add: normalize_def normalize_loop)

lemma two_documents_accumulated:
  "accumulate_pairs NInf GetDiscount_log2 (ready_object norm_config [Fin 1]) 0 0 2 [1, 0]
     [Fin 0, Fin 0] [Fin 7, Fin 7] [Fin 9, Fin 9] =
   Inr \<lparr> lambdas = [Fin ((1 / log 2 3 - 1) / 2), Fin ((1 - 1 / log 2 3) / 2)],
         hessians = [Fin ((1 - 1 / log 2 3) / 4), Fin ((1 - 1 / log 2 3) / 4)],
         sum_lambdas = Fin (1 - 1 / log 2 3),
         i_costs_buffer = [[Fin 0, Fin 0, Fin 0]], j_costs_buffer = [[Fin 0, Fin 0, Fin 0]] \<rparr>"
  by (simp add: eval_defs ready_object_fields config_simps discount_values
      ready_object_sigmoid[where s = 1] field_simps)

lemma sentinel_query_accumulated:
  "accumulate_pairs NInf GetDiscount_log2 (ready_object norm_config [Fin 1]) 0 0 3 [1, 0, 1]
     [Fin 0, Fin 0, NInf] [Fin 7, Fin 7, Fin 7] [Fin 9, Fin 9, Fin 9] =
   Inr \<lparr> lambdas = [Fin ((1 / log 2 3 - 1) / 2), Fin ((1 - 1 / log 2 3) / 2), Fin 0],
         hessians = [Fin ((1 - 1 / log 2 3) / 4), Fin ((1 - 1 / log 2 3) / 4), Fin 0],
         sum_lambdas = Fin (1 - 1 / log 2 3),
         i_costs_buffer = [[Fin 0, Fin 0, Fin 0]], j_costs_buffer = [[Fin 0, Fin 0, Fin 0]] \<rparr>"
  by (simp add: eval_defs ready_object_fields config_simps discount_values
      ready_object_sigmoid[where s = 1] field_simps)

lemma sentinel_query_run:
  "\<exists>st. GetGradientsForOneQuery NInf GetDiscount_log2 (ready_object norm_config [Fin 1]) 0 0 3
     [1, 0, 1] [Fin 0, Fin 0, NInf] [Fin 7, Fin 7, Fin 7] [Fin 9, Fin 9, Fin 9] = Inr st \<and>
     sum_lambdas st = Fin (1 - 1 / log 2 3)"
  unfolding GetGradientsForOneQuery_def sentinel_query_accumulated
  by (simp add: normalize_closed)

lemma zero_bias_query_accumulated:
  "accumulate_pairs NInf GetDiscount_log2 zero_bias_object 0 0 3 [0, 1, 0]
     [Fin 0, Fin 0, NInf] [Fin 0, Fin 0, Fin 0] [Fin 0, Fin 0, Fin 0] =
   Inr \<lparr> lambdas = [PInf, NInf, Fin 0], hessians = [PInf, PInf, Fin 0],
         sum_lambdas = PInf,
         i_costs_buffer = [[Fin 0, Fin (ln 2 * (1 - 1 / log 2 3)), Fin 0]],
         j_costs_buffer = [[PInf, Fin 0, Fin 0]] \<rparr>"
  unfolding zero_bias_object_eq
  using discount_gap
  by (simp add: eval_defs ready_object_fields config_simps discount_values
      ready_object_sigmoid[where s = 1] inf_of_sign_def)

lemma zero_bias_object_fields:
  "norm_' zero_bias_object" "i_biases_pow_' zero_bias_object = [Fin 1, Fin 0, Fin 2]"
  "j_biases_pow_' zero_bias_object = [Fin 1, Fin 2, Fin 0]"
  unfolding zero_bias_object_eq by (simp_all add: ready_object_fields config_simps)

lemma abs_minus_commute_double: "\<bar>x - y\<bar> = \<bar>y - x\<bar>" for x y :: double
  by (cases x; cases y) (simp_all add: minus_double_def inf_of_sign_def)

lemma tilted_object_fields:
  "unbiased_' tilted_object" "i_biases_pow_' tilted_object = [Fin 1, Fin 2, Fin 1]"
  "j_biases_pow_' tilted_object = [Fin 1, Fin 1, Fin 1]"
  unfolding tilted_object_eq by (simp_all add: ready_object_fields config_simps)

lemma tilted_query_accumulated:
  "accumulate_pairs NInf GetDiscount_log2 tilted_object 0 0 2 [1, 0]
     [Fin 0, Fin 0] [Fin 0, Fin 0] [Fin 0, Fin 0] =
   Inr \<lparr> lambdas = [Fin (- ((1 - 1 / log 2 3) / 2)), Fin ((1 - 1 / log 2 3) / 2)],
         hessians = [Fin ((1 - 1 / log 2 3) / 4), Fin ((1 - 1 / log 2 3) / 4)],
         sum_lambdas = Fin (1 - 1 / log 2 3),
         i_costs_buffer = [[Fin (ln 2 * (1 - 1 / log 2 3)), Fin 0, Fin 0]],
         j_costs_buffer = [[Fin 0, Fin (ln 2 * (1 - 1 / log 2 3)), Fin 0]] \<rparr>"
  "accumulate_pairs NInf GetDiscount_log2 tilted_object 0 0 2 [0, 1]
     [Fin 0, Fin 0] [Fin 0, Fin 0] [Fin 0, Fin 0] =
   Inr \<lparr> lambdas = [Fin ((1 - 1 / log 2 3) / 4), Fin (- ((1 - 1 / log 2 3) / 4))],
         hessians = [Fin ((1 - 1 / log 2 3) / 8), Fin ((1 - 1 / log 2 3) / 8)],
         sum_lambdas = Fin ((1 - 1 / log 2 3) / 2),
         i_costs_buffer = [[Fin 0, Fin (ln 2 * (1 - 1 / log 2 3)), Fin 0]],
         j_costs_buffer = [[Fin (ln 2 * (1 - 1 / log 2 3) / 2), Fin 0, Fin 0]] \<rparr>"
  unfolding tilted_object_eq
  using discount_gap
  by (simp_all add: eval_defs ready_object_fields config_simps discount_values
      ready_object_sigmoid[where s = 1] inf_of_sign_def diff_divide_distrib)

section \<open>C1: the bias powers and zero\<close>

text \<open>
  C1, as the code has it. \<^verbatim>\<open>InitPositionBiasesAndGradients\<close> seeds every entry of
  \<^verbatim>\<open>i_biases_pow_\<close> and \<^verbatim>\<open>j_biases_pow_\<close> with 1.0. On an object whose estimator arrays
  have the shape the initialisation gives them, an update step returns and overwrites the
  entry of every rank \<open>r\<close> with \<^verbatim>\<open>pow(i_costs_[r] / i_costs_[0], eta_)\<close> (and
  \<^verbatim>\<open>pow(j_costs_[r] / j_costs_[0], eta_)\<close>), with no guard: for \<^verbatim>\<open>eta_\<close> above zero the
  entry is exactly zero when the reduced cost of rank \<open>r\<close> is zero and the one of rank 0 is
  finite and not zero. When an entry stays different from zero is not stated: that depends
  on how the quotient and \<^verbatim>\<open>pow\<close> round, which is outside the numbers of this theory.
\<close>

theorem bias_powers_seeded_and_overwritten:
  "i_biases_pow_' (InitPositionBiasesAndGradients obj0) = replicate (truncation_level_' obj0) (Fin 1) \<and>
   j_biases_pow_' (InitPositionBiasesAndGradients obj0) = replicate (truncation_level_' obj0) (Fin 1) \<and>
   (bias_state_ok obj \<longrightarrow>
     (\<exists>obj1 obj'. reduce_cost_buffers obj = Inr obj1 \<and>
        UpdatePositionBiasesAndGradients obj = Inr obj' \<and>
        (\<forall>r < truncation_level_' obj.
           i_biases_pow_' obj' ! r = c_pow (i_costs_' obj1 ! r / i_costs_' obj1 ! 0) (eta_' obj) \<and>
           j_biases_pow_' obj' ! r = c_pow (j_costs_' obj1 ! r / j_costs_' obj1 ! 0) (eta_' obj) \<and>
           (Fin 0 < eta_' obj \<and> i_costs_' obj1 ! r = Fin 0 \<and> finite_nonzero (i_costs_' obj1 ! 0)
              \<longrightarrow> i_biases_pow_' obj' ! r = Fin 0) \<and>
           (Fin 0 < eta_' obj \<and> j_costs_' obj1 ! r = Fin 0 \<and> finite_nonzero (j_costs_' obj1 ! 0)
              \<longrightarrow> j_biases_pow_' obj' ! r = Fin 0))))"
proof (intro conjI impI)
  assume a: "bias_state_ok obj"
  from Update_closed[OF a] obtain obj1 where
    r: "reduce_cost_buffers obj = Inr obj1" and
    u: "UpdatePositionBiasesAndGradients obj =
       Inr (obj\<lparr> i_biases_pow_' :=
                   map (\<lambda>r. c_pow (i_costs_' obj1 ! r / i_costs_' obj1 ! 0) (eta_' obj))
                     [0..<truncation_level_' obj],
                 j_biases_pow_' :=
                   map (\<lambda>r. c_pow (j_costs_' obj1 ! r / j_costs_' obj1 ! 0) (eta_' obj))
                     [0..<truncation_level_' obj],
                 i_costs_' := replicate (truncation_level_' obj) (Fin 0),
                 j_costs_' := replicate (truncation_level_' obj) (Fin 0),
                 i_costs_buffer_' := replicate (num_threads_' obj) (replicate (truncation_level_' obj) (Fin 0)),
                 j_costs_buffer_' := replicate (num_threads_' obj) (replicate (truncation_level_' obj) (Fin 0)) \<rparr>)"
    by blast
  show "\<exists>obj1 obj'. reduce_cost_buffers obj = Inr obj1 \<and>
        UpdatePositionBiasesAndGradients obj = Inr obj' \<and>
        (\<forall>r < truncation_level_' obj.
           i_biases_pow_' obj' ! r = c_pow (i_costs_' obj1 ! r / i_costs_' obj1 ! 0) (eta_' obj) \<and>
           j_biases_pow_' obj' ! r = c_pow (j_costs_' obj1 ! r / j_costs_' obj1 ! 0) (eta_' obj) \<and>
           (Fin 0 < eta_' obj \<and> i_costs_' obj1 ! r = Fin 0 \<and> finite_nonzero (i_costs_' obj1 ! 0)
              \<longrightarrow> i_biases_pow_' obj' ! r = Fin 0) \<and>
           (Fin 0 < eta_' obj \<and> j_costs_' obj1 ! r = Fin 0 \<and> finite_nonzero (j_costs_' obj1 ! 0)
              \<longrightarrow> j_biases_pow_' obj' ! r = Fin 0))"
    by (simp add: r u c_pow_zero_cost)
qed (simp_all add: InitPositionBiasesAndGradients_def Let_def)

theorem bias_powers_seeded_and_overwritten_witness:
  "bias_state_ok (demo_object\<lparr> i_costs_buffer_' := [[Fin 2, Fin 0]], j_costs_buffer_' := [[Fin 3, Fin 0]] \<rparr>) \<and>
   Fin 0 < eta_' demo_object \<and>
   i_biases_pow_' (InitPositionBiasesAndGradients demo_object) = [Fin 1, Fin 1] \<and>
   (\<exists>obj1 obj'. reduce_cost_buffers
             (demo_object\<lparr> i_costs_buffer_' := [[Fin 2, Fin 0]], j_costs_buffer_' := [[Fin 3, Fin 0]] \<rparr>)
           = Inr obj1 \<and>
       UpdatePositionBiasesAndGradients
             (demo_object\<lparr> i_costs_buffer_' := [[Fin 2, Fin 0]], j_costs_buffer_' := [[Fin 3, Fin 0]] \<rparr>)
           = Inr obj' \<and>
       i_costs_' obj1 = [Fin 2, Fin 0] \<and> j_costs_' obj1 = [Fin 3, Fin 0] \<and>
       i_biases_pow_' obj' ! 1 = Fin 0 \<and> j_biases_pow_' obj' ! 1 = Fin 0)"
proof -
  let ?obj = "demo_object\<lparr> i_costs_buffer_' := [[Fin 2, Fin 0]], j_costs_buffer_' := [[Fin 3, Fin 0]] \<rparr>"
  have ok: "bias_state_ok ?obj"
    by (simp add: demo_defs bias_state_ok_def)
  have eta: "Fin 0 < eta_' ?obj" "Fin 0 < eta_' demo_object"
    by (simp_all add: demo_defs)
  have red: "reduce_cost_buffers ?obj =
      Inr (?obj\<lparr> i_costs_' := [Fin 2, Fin 0], j_costs_' := [Fin 3, Fin 0],
                  i_costs_buffer_' := [[Fin 0, Fin 0]], j_costs_buffer_' := [[Fin 0, Fin 0]] \<rparr>)"
    by (simp add: demo_defs update_defs)
  have t: "truncation_level_' ?obj = 2"
    by (simp add: demo_defs)
  from bias_powers_seeded_and_overwritten[of demo_object ?obj] ok
  obtain obj1 obj' where
    o: "reduce_cost_buffers ?obj = Inr obj1"
    "UpdatePositionBiasesAndGradients ?obj = Inr obj'" and
    z: "\<forall>r < truncation_level_' ?obj.
       i_biases_pow_' obj' ! r = c_pow (i_costs_' obj1 ! r / i_costs_' obj1 ! 0) (eta_' ?obj) \<and>
       j_biases_pow_' obj' ! r = c_pow (j_costs_' obj1 ! r / j_costs_' obj1 ! 0) (eta_' ?obj) \<and>
       (Fin 0 < eta_' ?obj \<and> i_costs_' obj1 ! r = Fin 0 \<and> finite_nonzero (i_costs_' obj1 ! 0)
          \<longrightarrow> i_biases_pow_' obj' ! r = Fin 0) \<and>
       (Fin 0 < eta_' ?obj \<and> j_costs_' obj1 ! r = Fin 0 \<and> finite_nonzero (j_costs_' obj1 ! 0)
          \<longrightarrow> j_biases_pow_' obj' ! r = Fin 0)"
    by blast
  have c: "i_costs_' obj1 = [Fin 2, Fin 0]" "j_costs_' obj1 = [Fin 3, Fin 0]"
    using o(1) red by auto
  have "1 < truncation_level_' ?obj" using t by simp
  with z have
    "Fin 0 < eta_' ?obj \<and> i_costs_' obj1 ! 1 = Fin 0 \<and> finite_nonzero (i_costs_' obj1 ! 0)
          \<longrightarrow> i_biases_pow_' obj' ! 1 = Fin 0"
    "Fin 0 < eta_' ?obj \<and> j_costs_' obj1 ! 1 = Fin 0 \<and> finite_nonzero (j_costs_' obj1 ! 0)
          \<longrightarrow> j_biases_pow_' obj' ! 1 = Fin 0"
    by blast+
  then have "i_biases_pow_' obj' ! 1 = Fin 0 \<and> j_biases_pow_' obj' ! 1 = Fin 0"
    using eta(1) c by simp
  moreover have "i_biases_pow_' (InitPositionBiasesAndGradients demo_object) = [Fin 1, Fin 1]"
    using bias_powers_seeded_and_overwritten[of demo_object ?obj]
    by (simp add: demo_defs replicate_2)
  ultimately show ?thesis
    using ok eta o c by auto
qed

text \<open>
  The claim as stated fails. One query of two documents that are ranked in the order of
  their labels leaves a cost at rank 0 of the buffer of the higher role and at rank 1 of
  the buffer of the lower role, and nothing elsewhere. The update step then computes
  \<^verbatim>\<open>pow(0 / 1, 0.5)\<close> for rank 1 of \<^verbatim>\<open>i_biases_pow_\<close>, which is zero, from bias powers
  that were all 1.0.
\<close>

theorem update_makes_bias_power_zero:
  "i_biases_pow_' demo_object = [Fin 1, Fin 1] \<and>
   map_sum id i_biases_pow_'
     (UpdatePositionBiasesAndGradients
       (demo_object\<lparr> i_costs_buffer_' := [[Fin 1, Fin 0]], j_costs_buffer_' := [[Fin 0, Fin 1]] \<rparr>))
   = Inr [Fin 1, Fin 0]"
  by (simp add: demo_defs update_defs)

section \<open>C2: the anchor rank and the reset\<close>

text \<open>
  C2, as the code has it. On an object whose estimator arrays have the shape the
  initialisation gives them, \<^verbatim>\<open>UpdatePositionBiasesAndGradients\<close> returns with
  \<^verbatim>\<open>i_costs_\<close>, \<^verbatim>\<open>j_costs_\<close> and every row of the two buffers reset to zero, and
  \<^verbatim>\<open>i_biases_pow_[0]\<close> is exactly 1.0 if and only if \<^verbatim>\<open>eta_\<close> is zero or the reduced
  cost \<^verbatim>\<open>i_costs_[0]\<close> is finite and not zero; the same for \<^verbatim>\<open>j_biases_pow_[0]\<close>.
\<close>

theorem update_anchor_and_reset:
  assumes "bias_state_ok obj" "0 < truncation_level_' obj"
  shows "\<exists>obj1 obj'. reduce_cost_buffers obj = Inr obj1 \<and>
     UpdatePositionBiasesAndGradients obj = Inr obj' \<and>
     i_costs_' obj' = replicate (truncation_level_' obj) (Fin 0) \<and>
     j_costs_' obj' = replicate (truncation_level_' obj) (Fin 0) \<and>
     i_costs_buffer_' obj' = replicate (num_threads_' obj) (replicate (truncation_level_' obj) (Fin 0)) \<and>
     j_costs_buffer_' obj' = replicate (num_threads_' obj) (replicate (truncation_level_' obj) (Fin 0)) \<and>
     (i_biases_pow_' obj' ! 0 = Fin 1 \<longleftrightarrow> eta_' obj = Fin 0 \<or> finite_nonzero (i_costs_' obj1 ! 0)) \<and>
     (j_biases_pow_' obj' ! 0 = Fin 1 \<longleftrightarrow> eta_' obj = Fin 0 \<or> finite_nonzero (j_costs_' obj1 ! 0))"
proof -
  from Update_closed[OF assms(1)] obtain obj1 where
    r: "reduce_cost_buffers obj = Inr obj1" and
    u: "UpdatePositionBiasesAndGradients obj =
       Inr (obj\<lparr> i_biases_pow_' :=
                   map (\<lambda>r. c_pow (i_costs_' obj1 ! r / i_costs_' obj1 ! 0) (eta_' obj))
                     [0..<truncation_level_' obj],
                 j_biases_pow_' :=
                   map (\<lambda>r. c_pow (j_costs_' obj1 ! r / j_costs_' obj1 ! 0) (eta_' obj))
                     [0..<truncation_level_' obj],
                 i_costs_' := replicate (truncation_level_' obj) (Fin 0),
                 j_costs_' := replicate (truncation_level_' obj) (Fin 0),
                 i_costs_buffer_' := replicate (num_threads_' obj) (replicate (truncation_level_' obj) (Fin 0)),
                 j_costs_buffer_' := replicate (num_threads_' obj) (replicate (truncation_level_' obj) (Fin 0)) \<rparr>)"
    by blast
  show ?thesis
    using assms(2) by (simp add: r u c_pow_one_iff)
qed

theorem update_anchor_and_reset_witness:
  "bias_state_ok (demo_object\<lparr> i_costs_buffer_' := [[Fin 1, Fin 2]], j_costs_buffer_' := [[Fin 3, Fin 1]] \<rparr>) \<and>
   0 < truncation_level_' demo_object \<and>
   (\<exists>obj'. UpdatePositionBiasesAndGradients
             (demo_object\<lparr> i_costs_buffer_' := [[Fin 1, Fin 2]], j_costs_buffer_' := [[Fin 3, Fin 1]] \<rparr>)
           = Inr obj' \<and>
       i_biases_pow_' obj' ! 0 = Fin 1 \<and> j_biases_pow_' obj' ! 0 = Fin 1 \<and>
       i_costs_' obj' = [Fin 0, Fin 0] \<and> j_costs_' obj' = [Fin 0, Fin 0] \<and>
       i_costs_buffer_' obj' = [[Fin 0, Fin 0]] \<and> j_costs_buffer_' obj' = [[Fin 0, Fin 0]])"
proof -
  let ?obj = "demo_object\<lparr> i_costs_buffer_' := [[Fin 1, Fin 2]], j_costs_buffer_' := [[Fin 3, Fin 1]] \<rparr>"
  have ok: "bias_state_ok ?obj"
    by (simp add: demo_defs bias_state_ok_def)
  have t: "truncation_level_' ?obj = 2" "num_threads_' ?obj = 1"
    by (simp_all add: demo_defs)
  have red: "reduce_cost_buffers ?obj =
      Inr (?obj\<lparr> i_costs_' := [Fin 1, Fin 2], j_costs_' := [Fin 3, Fin 1],
                  i_costs_buffer_' := [[Fin 0, Fin 0]], j_costs_buffer_' := [[Fin 0, Fin 0]] \<rparr>)"
    by (simp add: demo_defs update_defs)
  from update_anchor_and_reset[OF ok] t
  obtain obj1 obj' where
    "reduce_cost_buffers ?obj = Inr obj1"
    "UpdatePositionBiasesAndGradients ?obj = Inr obj'"
    "i_costs_' obj' = replicate 2 (Fin 0)" "j_costs_' obj' = replicate 2 (Fin 0)"
    "i_costs_buffer_' obj' = replicate 1 (replicate 2 (Fin 0))"
    "j_costs_buffer_' obj' = replicate 1 (replicate 2 (Fin 0))"
    "i_biases_pow_' obj' ! 0 = Fin 1 \<longleftrightarrow> eta_' ?obj = Fin 0 \<or> finite_nonzero (i_costs_' obj1 ! 0)"
    "j_biases_pow_' obj' ! 0 = Fin 1 \<longleftrightarrow> eta_' ?obj = Fin 0 \<or> finite_nonzero (j_costs_' obj1 ! 0)"
    by auto
  then have "UpdatePositionBiasesAndGradients ?obj = Inr obj' \<and>
       i_biases_pow_' obj' ! 0 = Fin 1 \<and> j_biases_pow_' obj' ! 0 = Fin 1 \<and>
       i_costs_' obj' = [Fin 0, Fin 0] \<and> j_costs_' obj' = [Fin 0, Fin 0] \<and>
       i_costs_buffer_' obj' = [[Fin 0, Fin 0]] \<and> j_costs_buffer_' obj' = [[Fin 0, Fin 0]]"
    using red by (auto simp: replicate_2)
  then show ?thesis
    using ok t by auto
qed

text \<open>
  The claim as stated fails on the same buffers: the lower role has no cost at rank 0,
  the update step computes \<^verbatim>\<open>pow(0 / 0, 0.5)\<close> for \<^verbatim>\<open>j_biases_pow_[0]\<close>, and the result
  is a NaN, not 1.0.
\<close>

theorem update_anchor_is_nan:
  "map_sum id j_biases_pow_'
     (UpdatePositionBiasesAndGradients
       (demo_object\<lparr> i_costs_buffer_' := [[Fin 1, Fin 0]], j_costs_buffer_' := [[Fin 0, Fin 1]] \<rparr>))
   = Inr [NaN, PInf]"
  by (simp add: demo_defs update_defs)

section \<open>C3: the sigmoid lookup\<close>




section \<open>C4: two tied documents of different labels\<close>

text \<open>
  C4, as the code has it. Two documents \<open>a\<close> and \<open>b\<close> of equal score and different labels
  stand at the ranks \<open>i\<close> and \<open>j\<close>. Swapping them swaps their labels and leaves the scores,
  and so the sort order, as they are. Before and after the swap the body of the inner loop
  computes the same sigmoid value \<open>p\<close> and the same \<^verbatim>\<open>delta_pair_NDCG\<close>; what the swap
  exchanges is which of the two ranks is \<^verbatim>\<open>high_rank\<close> and which is \<^verbatim>\<open>low_rank\<close>. The
  pair's lambda is \<open>p\<close> times \<^verbatim>\<open>-sigmoid_ * delta_pair_NDCG\<close> divided by
  \<^verbatim>\<open>i_biases_pow_[high_rank]\<close> and by \<^verbatim>\<open>j_biases_pow_[low_rank]\<close>, and its hessian likewise,
  whether unbiased correction is on or off. So the contribution is the same before and after
  the swap whenever the two divisions give the same, in particular when the bias powers of
  the two ranks are equal, as they are from the initialisation until an update changes
  them.
\<close>

theorem tie_swap_symmetry:
  fixes label :: "nat list"
  assumes "i < length sorted_idx" "j < length sorted_idx"
    and "a = sorted_idx ! i" "b = sorted_idx ! j" "a \<noteq> b"
    and "a < length label" "b < length label" "a < length score" "b < length score"
    and "score ! a = score ! b" "label ! a \<noteq> label ! b"
    and "\<not> deq (score ! b) kMinScore"
    and "label' = label[a := label ! b, b := label ! a]"
    and "label ! a < length (label_gain_' obj)" "label ! b < length (label_gain_' obj)"
    and "i < length (i_biases_pow_' obj)" "j < length (i_biases_pow_' obj)"
    and "i < length (j_biases_pow_' obj)" "j < length (j_biases_pow_' obj)"
    and "GetSigmoid obj (score ! a - score ! b) = Inr p"
    and "delta0 = (label_gain_' obj ! max (label ! a) (label ! b) -
                   label_gain_' obj ! min (label ! a) (label ! b)) *
                  \<bar>GetDiscount i - GetDiscount j\<bar> * inverse_max_dcg"
    and "delta = (if (norm_' obj \<or> unbiased_' obj) \<and> \<not> deq best_score worst_score
                  then delta0 / (Fin (1 / 100) + \<bar>score ! a - score ! b\<bar>) else delta0)"
    and "p_lambda = (\<lambda>high_rank low_rank.
           p * (- sigmoid_' obj * delta / i_biases_pow_' obj ! high_rank /
                  j_biases_pow_' obj ! low_rank))"
    and "p_hessian = (\<lambda>high_rank low_rank.
           p * (Fin 1 - p) *
           (sigmoid_' obj * sigmoid_' obj * delta / i_biases_pow_' obj ! high_rank /
              j_biases_pow_' obj ! low_rank))"
    and "costs = (\<lambda>high_rank low_rank.
           if unbiased_' obj then add_pair_cost obj tid high_rank low_rank p delta st else Inr st)"
    and "hr = (if label ! b < label ! a then i else j)"
    and "lr = (if label ! b < label ! a then j else i)"
  shows "pair_body kMinScore GetDiscount obj tid inverse_max_dcg best_score worst_score
           sorted_idx label score i j st =
           bindE (costs hr lr)
             (add_pair_gradients (sorted_idx ! hr) (sorted_idx ! lr)
                (p_lambda hr lr) (p_hessian hr lr)) \<and>
         pair_body kMinScore GetDiscount obj tid inverse_max_dcg best_score worst_score
           sorted_idx label' score i j st =
           bindE (costs lr hr)
             (add_pair_gradients (sorted_idx ! lr) (sorted_idx ! hr)
                (p_lambda lr hr) (p_hessian lr hr)) \<and>
         (i_biases_pow_' obj ! i = i_biases_pow_' obj ! j \<and>
          j_biases_pow_' obj ! i = j_biases_pow_' obj ! j \<longrightarrow>
            p_lambda hr lr = p_lambda lr hr \<and> p_hessian hr lr = p_hessian lr hr)"
proof (intro conjI impI)
  have la: "label' ! a = label ! b" "label' ! b = label ! a" "length label' = length label"
    using assms(5,6,7) by (simp_all add: assms(13))
  have s: "\<not> deq (score ! (sorted_idx ! j)) kMinScore"
    using assms(12) by (simp add: assms(4))
  have sg: "GetSigmoid obj (score ! b - score ! a) = Inr p"
    using assms(20) by (simp add: assms(10))
  note ab = abs_minus_commute_double[of "GetDiscount j" "GetDiscount i"]
  have mm: "label ! b < label ! a \<Longrightarrow> max (label ! a) (label ! b) = label ! a \<and>
       min (label ! a) (label ! b) = label ! b"
    "\<not> label ! b < label ! a \<Longrightarrow> max (label ! a) (label ! b) = label ! b \<and>
       min (label ! a) (label ! b) = label ! a"
    by auto
  note ev = pair_body_eval pair_contribution_eval[OF _ _ _ _ _ _ _ _ _ _ _ refl refl]
  show "pair_body kMinScore GetDiscount obj tid inverse_max_dcg best_score worst_score
           sorted_idx label score i j st =
           bindE (costs hr lr)
             (add_pair_gradients (sorted_idx ! hr) (sorted_idx ! lr)
                (p_lambda hr lr) (p_hessian hr lr))"
  proof (cases "label ! b < label ! a")
    case True
    then show ?thesis
      using assms(1,2,6-9,11,14-19) s assms(20) mm(1)
      unfolding assms(21-27)
      by (simp add: ev assms(3,4)[symmetric])
  next
    case False
    then show ?thesis
      using assms(1,2,6-9,11,14-19) s sg assms(10) mm(2) ab
      unfolding assms(21-27)
      by (simp add: ev assms(3,4)[symmetric])
  qed
  show "pair_body kMinScore GetDiscount obj tid inverse_max_dcg best_score worst_score
           sorted_idx label' score i j st =
           bindE (costs lr hr)
             (add_pair_gradients (sorted_idx ! lr) (sorted_idx ! hr)
                (p_lambda lr hr) (p_hessian lr hr))"
  proof (cases "label ! b < label ! a")
    case True
    then show ?thesis
      using assms(1,2,6-9,11,14-19) s sg assms(10) mm(1) ab
      unfolding assms(21-27)
      by (simp add: ev assms(3,4)[symmetric] la)
  next
    case False
    then have lt: "label ! a < label ! b" using assms(11) by simp
    show ?thesis
      using assms(1,2,6-9,11,14-19) s assms(20) mm(2) False lt
      unfolding assms(21-27)
      by (simp add: ev assms(3,4)[symmetric] la)
  qed
  assume "i_biases_pow_' obj ! i = i_biases_pow_' obj ! j \<and>
          j_biases_pow_' obj ! i = j_biases_pow_' obj ! j"
  then show "p_lambda hr lr = p_lambda lr hr" "p_hessian hr lr = p_hessian lr hr"
    unfolding assms(23,24,26,27) by simp_all
qed

theorem tie_swap_symmetry_witness:
  "unbiased_' (ready_object unbiased_config [Fin 1]) \<and>
   i_biases_pow_' (ready_object unbiased_config [Fin 1]) = [Fin 1, Fin 1, Fin 1] \<and>
   j_biases_pow_' (ready_object unbiased_config [Fin 1]) = [Fin 1, Fin 1, Fin 1] \<and>
   pair_body NInf GetDiscount_log2 (ready_object unbiased_config [Fin 1]) 0 (Fin 1) (Fin 0) (Fin 0)
      [0, 1] [1, 0] [Fin 0, Fin 0] 0 1
      \<lparr> lambdas = [Fin 0, Fin 0], hessians = [Fin 0, Fin 0], sum_lambdas = Fin 0,
        i_costs_buffer = [[Fin 0, Fin 0, Fin 0]], j_costs_buffer = [[Fin 0, Fin 0, Fin 0]] \<rparr> =
    Inr \<lparr> lambdas = [Fin (- ((1 - 1 / log 2 3) / 2)), Fin ((1 - 1 / log 2 3) / 2)],
          hessians = [Fin ((1 - 1 / log 2 3) / 4), Fin ((1 - 1 / log 2 3) / 4)],
          sum_lambdas = Fin (1 - 1 / log 2 3),
          i_costs_buffer = [[Fin (ln 2 * (1 - 1 / log 2 3)), Fin 0, Fin 0]],
          j_costs_buffer = [[Fin 0, Fin (ln 2 * (1 - 1 / log 2 3)), Fin 0]] \<rparr> \<and>
   pair_body NInf GetDiscount_log2 (ready_object unbiased_config [Fin 1]) 0 (Fin 1) (Fin 0) (Fin 0)
      [0, 1] [0, 1] [Fin 0, Fin 0] 0 1
      \<lparr> lambdas = [Fin 0, Fin 0], hessians = [Fin 0, Fin 0], sum_lambdas = Fin 0,
        i_costs_buffer = [[Fin 0, Fin 0, Fin 0]], j_costs_buffer = [[Fin 0, Fin 0, Fin 0]] \<rparr> =
    Inr \<lparr> lambdas = [Fin ((1 - 1 / log 2 3) / 2), Fin (- ((1 - 1 / log 2 3) / 2))],
          hessians = [Fin ((1 - 1 / log 2 3) / 4), Fin ((1 - 1 / log 2 3) / 4)],
          sum_lambdas = Fin (1 - 1 / log 2 3),
          i_costs_buffer = [[Fin 0, Fin (ln 2 * (1 - 1 / log 2 3)), Fin 0]],
          j_costs_buffer = [[Fin (ln 2 * (1 - 1 / log 2 3)), Fin 0, Fin 0]] \<rparr>"
proof -
  let ?obj = "ready_object unbiased_config [Fin 1]"
  let ?st = "\<lparr> lambdas = [Fin 0, Fin 0], hessians = [Fin 0, Fin 0], sum_lambdas = Fin 0,
        i_costs_buffer = [[Fin 0, Fin 0, Fin 0]], j_costs_buffer = [[Fin 0, Fin 0, Fin 0]] \<rparr>"
  have sg: "GetSigmoid ?obj ([Fin 0, Fin 0] ! 0 - [Fin 0, Fin 0] ! 1) = Inr (Fin (1 / 2))"
    using ready_object_sigmoid[of unbiased_config 1 "[Fin 1]"]
    by (simp add: config_simps minus_double_def)
  note t = tie_swap_symmetry[where a = 0 and b = 1 and i = 0 and j = 1 and sorted_idx = "[0, 1]"
      and label = "[1, 0]" and score = "[Fin 0, Fin 0]" and kMinScore = NInf and obj = ?obj
      and GetDiscount = GetDiscount_log2 and inverse_max_dcg = "Fin 1" and best_score = "Fin 0"
      and worst_score = "Fin 0" and tid = 0 and st = ?st and p = "Fin (1 / 2)",
      OF _ _ _ _ _ _ _ _ _ _ _ _ refl _ _ _ _ _ _ sg refl refl refl refl refl refl refl]
  have h: "- ((2 - 2 / log 2 3) / 2) = 1 / log 2 (3::real) - 1"
    "(1 / log 2 3 - 1) / 2 = - ((1 - 1 / log 2 (3::real)) / 2)"
    by argo+
  show ?thesis
    using t discount_gap
    by (simp add: ready_object_fields config_simps discount_values minus_double_def replicate_3
        add_pair_gradients_def add_pair_cost_def rd2_def wr2_def Let_def h)
qed

text \<open>
  The claim as stated fails when the two quotients differ. After an update that left
  \<^verbatim>\<open>i_biases_pow_\<close> at 1, 2, 1 and \<^verbatim>\<open>j_biases_pow_\<close> at 1, 1, 1, the swap moves the higher
  label from rank 0 to rank 1, and the two tied documents get half the lambda and half the
  hessian once they are swapped.
\<close>

theorem tie_swap_changes_magnitude:
  "unbiased_' tilted_object \<and> i_biases_pow_' tilted_object = [Fin 1, Fin 2, Fin 1] \<and>
   j_biases_pow_' tilted_object = [Fin 1, Fin 1, Fin 1] \<and>
   (\<exists>st. GetGradientsForOneQuery NInf GetDiscount_log2 tilted_object 0 0 2 [1, 0]
          [Fin 0, Fin 0] [Fin 0, Fin 0] [Fin 0, Fin 0] = Inr st \<and>
      lambdas st = [Fin (- ((1 - 1 / log 2 3) / 2)), Fin ((1 - 1 / log 2 3) / 2)] \<and>
      hessians st = [Fin ((1 - 1 / log 2 3) / 4), Fin ((1 - 1 / log 2 3) / 4)]) \<and>
   (\<exists>st. GetGradientsForOneQuery NInf GetDiscount_log2 tilted_object 0 0 2 [0, 1]
          [Fin 0, Fin 0] [Fin 0, Fin 0] [Fin 0, Fin 0] = Inr st \<and>
      lambdas st = [Fin ((1 - 1 / log 2 3) / 4), Fin (- ((1 - 1 / log 2 3) / 4))] \<and>
      hessians st = [Fin ((1 - 1 / log 2 3) / 8), Fin ((1 - 1 / log 2 3) / 8)]) \<and>
   (1 - 1 / log 2 3) / 4 < (1 - 1 / log 2 3) / (2 :: real)"
proof -
  have n: "\<not> norm_' tilted_object"
    unfolding tilted_object_eq by (simp add: ready_object_fields config_simps)
  have less: "(1 - 1 / log 2 3) / 4 < (1 - 1 / log 2 3) / (2 :: real)"
    using discount_gap(1) by argo
  show ?thesis
    unfolding GetGradientsForOneQuery_def tilted_query_accumulated
    apply (intro conjI)
        apply (rule tilted_object_fields)
       apply (rule tilted_object_fields)
      apply (rule tilted_object_fields)
     apply (simp add: normalize_def n)
    apply (simp add: normalize_def n)
    apply (rule less)
    done
qed

section \<open>C5: the normalisation\<close>

text \<open>
  C5. When the loops over the pairs have left the state \<open>st\<close>, the pairwise computer
  returns \<open>st\<close> with the first \<open>cnt\<close> lambdas and hessians multiplied by
  \<^verbatim>\<open>log2(1 + sum_lambdas) / sum_lambdas\<close> if normalisation is enabled and
  \<^verbatim>\<open>sum_lambdas > 0\<close>, and \<open>st\<close> itself, with no rescaling, otherwise (normalisation
  disabled, or \<^verbatim>\<open>sum_lambdas\<close> zero).
\<close>

theorem normalization_rescales:
  assumes "accumulate_pairs kMinScore GetDiscount obj tid query_id cnt label score lambdas_in hessians_in
             = Inr st"
  shows "GetGradientsForOneQuery kMinScore GetDiscount obj tid query_id cnt label score
           lambdas_in hessians_in =
     Inr (if norm_' obj \<and> Fin 0 < sum_lambdas st
          then st\<lparr> lambdas :=
                      map (\<lambda>x. x * (c_log2 (Fin 1 + sum_lambdas st) / sum_lambdas st))
                        (take cnt (lambdas st)) @ drop cnt (lambdas st),
                    hessians :=
                      map (\<lambda>x. x * (c_log2 (Fin 1 + sum_lambdas st) / sum_lambdas st))
                        (take cnt (hessians st)) @ drop cnt (hessians st) \<rparr>
          else st)"
proof -
  from accumulate_pairs_Inr[OF assms]
  have "cnt \<le> length (lambdas st)" "cnt \<le> length (hessians st)" by simp_all
  then show ?thesis
    by (simp add: GetGradientsForOneQuery_def assms normalize_closed)
qed

theorem normalization_rescales_witness:
  "\<exists>st. accumulate_pairs NInf GetDiscount_log2 (ready_object norm_config [Fin 1]) 0 0 2 [1, 0]
           [Fin 0, Fin 0] [Fin 7, Fin 7] [Fin 9, Fin 9] = Inr st \<and>
      norm_' (ready_object norm_config [Fin 1]) \<and> Fin 0 < sum_lambdas st \<and>
      lambdas st = [Fin ((1 / log 2 3 - 1) / 2), Fin ((1 - 1 / log 2 3) / 2)] \<and>
      GetGradientsForOneQuery NInf GetDiscount_log2 (ready_object norm_config [Fin 1]) 0 0 2 [1, 0]
           [Fin 0, Fin 0] [Fin 7, Fin 7] [Fin 9, Fin 9] =
        Inr (st\<lparr> lambdas :=
                    map (\<lambda>x. x * (c_log2 (Fin 1 + sum_lambdas st) / sum_lambdas st))
                      (take 2 (lambdas st)) @ drop 2 (lambdas st),
                  hessians :=
                    map (\<lambda>x. x * (c_log2 (Fin 1 + sum_lambdas st) / sum_lambdas st))
                      (take 2 (hessians st)) @ drop 2 (hessians st) \<rparr>)"
proof -
  let ?st = "\<lparr> lambdas = [Fin ((1 / log 2 3 - 1) / 2), Fin ((1 - 1 / log 2 3) / 2)],
         hessians = [Fin ((1 - 1 / log 2 3) / 4), Fin ((1 - 1 / log 2 3) / 4)],
         sum_lambdas = Fin (1 - 1 / log 2 3),
         i_costs_buffer = [[Fin 0, Fin 0, Fin 0]], j_costs_buffer = [[Fin 0, Fin 0, Fin 0]] \<rparr>"
  have n: "norm_' (ready_object norm_config [Fin 1])"
    by (simp add: ready_object_fields config_simps)
  have p: "Fin 0 < sum_lambdas ?st"
    using discount_gap(1) by simp
  have c: "norm_' (ready_object norm_config [Fin 1]) \<and> Fin 0 < sum_lambdas ?st"
    using n p by (rule conjI)
  show ?thesis
    apply (rule exI[of _ ?st])
    apply (intro conjI)
        apply (rule two_documents_accumulated)
       apply (rule n)
      apply (rule p)
     apply simp
    apply (rule trans[OF normalization_rescales[OF two_documents_accumulated]])
    apply (simp only: n p simp_thms if_True)
    done
qed

section \<open>C6: queries of at most one document\<close>

text \<open>
  C6. For a query with \<open>cnt \<le> 1\<close> the listwise computer returns with zero in the first
  \<open>cnt\<close> entries of both output slices. Whenever the pairwise computer returns for such
  a query, the first \<open>cnt\<close> entries of its lambdas and hessians are zero, and for
  \<open>cnt = 1\<close> it does return (given one score and the query's entry of the cached inverse
  maximal DCGs). For \<open>cnt = 0\<close> the slice is empty and nothing is written.
\<close>

theorem small_queries_get_zero:
  assumes "cnt \<le> 1" "cnt \<le> length lambdas_in" "cnt \<le> length hessians_in"
  shows "RankXENDCG_GetGradientsForOneQuery Softmax NextFloat kEpsilon xobj query_id cnt label score
            lambdas_in hessians_in =
           Inr (xobj, replicate cnt (Fin 0) @ drop cnt lambdas_in,
                      replicate cnt (Fin 0) @ drop cnt hessians_in) \<and>
         (\<forall>st. GetGradientsForOneQuery kMinScore GetDiscount obj tid query_id cnt label score
                 lambdas_in hessians_in = Inr st \<longrightarrow>
               take cnt (lambdas st) = replicate cnt (Fin 0) \<and>
               take cnt (hessians st) = replicate cnt (Fin 0)) \<and>
         (cnt = 1 \<and> 1 \<le> length score \<and> query_id < length (inverse_max_dcgs_' obj) \<longrightarrow>
            GetGradientsForOneQuery kMinScore GetDiscount obj tid query_id cnt label score
                 lambdas_in hessians_in =
              Inr \<lparr> lambdas = replicate cnt (Fin 0) @ drop cnt lambdas_in,
                    hessians = replicate cnt (Fin 0) @ drop cnt hessians_in,
                    sum_lambdas = Fin 0,
                    i_costs_buffer = i_costs_buffer_' obj,
                    j_costs_buffer = j_costs_buffer_' obj \<rparr>)"
proof (intro conjI allI impI)
  show "RankXENDCG_GetGradientsForOneQuery Softmax NextFloat kEpsilon xobj query_id cnt label score
            lambdas_in hessians_in =
           Inr (xobj, replicate cnt (Fin 0) @ drop cnt lambdas_in,
                      replicate cnt (Fin 0) @ drop cnt hessians_in)"
    using assms by (rule xendcg_small)
next
  fix st
  assume r: "GetGradientsForOneQuery kMinScore GetDiscount obj tid query_id cnt label score
                 lambdas_in hessians_in = Inr st"
  from pairwise_Inr_domain[OF r] assms have c: "cnt = 1" and
    d: "1 \<le> length lambdas_in" "1 \<le> length hessians_in" "1 \<le> length score"
       "query_id < length (inverse_max_dcgs_' obj)"
    by simp_all
  from r one_document_query[OF d, of kMinScore GetDiscount tid label]
  have "st = \<lparr> lambdas = replicate 1 (Fin 0) @ drop 1 lambdas_in,
                hessians = replicate 1 (Fin 0) @ drop 1 hessians_in,
                sum_lambdas = Fin 0,
                i_costs_buffer = i_costs_buffer_' obj, j_costs_buffer = j_costs_buffer_' obj \<rparr>"
    by (simp add: c)
  then show "take cnt (lambdas st) = replicate cnt (Fin 0)"
    "take cnt (hessians st) = replicate cnt (Fin 0)"
    by (simp_all add: c)
next
  assume "cnt = 1 \<and> 1 \<le> length score \<and> query_id < length (inverse_max_dcgs_' obj)"
  then show "GetGradientsForOneQuery kMinScore GetDiscount obj tid query_id cnt label score
                 lambdas_in hessians_in =
              Inr \<lparr> lambdas = replicate cnt (Fin 0) @ drop cnt lambdas_in,
                    hessians = replicate cnt (Fin 0) @ drop cnt hessians_in,
                    sum_lambdas = Fin 0,
                    i_costs_buffer = i_costs_buffer_' obj,
                    j_costs_buffer = j_costs_buffer_' obj \<rparr>"
    using assms one_document_query[of lambdas_in hessians_in score query_id obj kMinScore GetDiscount tid label]
    by simp
qed

theorem small_queries_get_zero_witness:
  "(1::nat) \<le> 1 \<and> 1 \<le> length [Fin 7] \<and> 1 \<le> length [Fin 9] \<and> 1 \<le> length [Fin (1 / 2)] \<and>
   (0::nat) < length (inverse_max_dcgs_' (demo_object\<lparr> inverse_max_dcgs_' := [Fin 1] \<rparr>)) \<and>
   RankXENDCG_GetGradientsForOneQuery (\<lambda>s n. s) (\<lambda>g :: nat. (Fin 0, g)) (Fin 0)
       \<lparr> seed_' = 0, num_queries_' = 1, num_data_' = 1, label_' = [1], weights_' = None,
         query_boundaries_' = Some [0, 1], rands_' = [0] \<rparr>
       0 1 [1] [Fin (1 / 2)] [Fin 7] [Fin 9] =
     Inr (\<lparr> seed_' = 0, num_queries_' = 1, num_data_' = 1, label_' = [1], weights_' = None,
            query_boundaries_' = Some [0, 1], rands_' = [0] \<rparr>, [Fin 0], [Fin 0]) \<and>
   map_sum id lambdas
     (GetGradientsForOneQuery NInf (\<lambda>_. Fin 1) (demo_object\<lparr> inverse_max_dcgs_' := [Fin 1] \<rparr>)
        0 0 1 [1] [Fin (1 / 2)] [Fin 7] [Fin 9]) = Inr [Fin 0] \<and>
   map_sum id hessians
     (GetGradientsForOneQuery NInf (\<lambda>_. Fin 1) (demo_object\<lparr> inverse_max_dcgs_' := [Fin 1] \<rparr>)
        0 0 1 [1] [Fin (1 / 2)] [Fin 7] [Fin 9]) = Inr [Fin 0]"
  using small_queries_get_zero[of 1 "[Fin 7]" "[Fin 9]" "\<lambda>s n. s" "\<lambda>g :: nat. (Fin 0, g)" "Fin 0"
      "\<lparr> seed_' = 0, num_queries_' = 1, num_data_' = 1, label_' = [1], weights_' = None,
         query_boundaries_' = Some [0, 1], rands_' = [0] \<rparr>"
      0 "[1]" "[Fin (1 / 2)]" NInf "\<lambda>_. Fin 1" "demo_object\<lparr> inverse_max_dcgs_' := [Fin 1] \<rparr>" 0]
  by simp

section \<open>C7: documents with the sentinel score\<close>

text \<open>
  C7, as the code has it. When the pairwise computer returns, every document of the query
  whose score equals \<^verbatim>\<open>kMinScore\<close> has lambda and hessian exactly zero, wherever it stands
  in the sort order, provided that the accumulated \<^verbatim>\<open>sum_lambdas\<close> is not \<open>+\<infinity>\<close> when
  normalisation is enabled. (The loops over the pairs skip such a document at both ends;
  the normalisation loop multiplies every document of the query by the norm factor.)
\<close>

theorem sentinel_documents_get_zero:
  assumes "GetGradientsForOneQuery kMinScore GetDiscount obj tid query_id cnt label score
             lambdas_in hessians_in = Inr st"
    and "d < cnt" and "deq (score ! d) kMinScore"
    and "norm_' obj \<longrightarrow> sum_lambdas st \<noteq> PInf"
  shows "lambdas st ! d = Fin 0 \<and> hessians st ! d = Fin 0"
proof -
  from assms(1) obtain st0 where
    a: "accumulate_pairs kMinScore GetDiscount obj tid query_id cnt label score lambdas_in hessians_in
          = Inr st0" and n: "normalize obj cnt st0 = Inr st"
    unfolding GetGradientsForOneQuery_def by (elim bindE_InrE)
  note A = accumulate_pairs_Inr[OF a]
  have z: "lambdas st0 ! d = Fin 0" "hessians st0 ! d = Fin 0"
    using A assms(2,3) by simp_all
  show ?thesis
  proof (cases "norm_' obj \<and> Fin 0 < sum_lambdas st0")
    case False
    then have "st = st0" using n by (auto simp: normalize_def)
    then show ?thesis using z by simp
  next
    case True
    let ?f = "c_log2 (Fin 1 + sum_lambdas st0) / sum_lambdas st0"
    have st: "st = st0\<lparr> lambdas := map (\<lambda>x. x * ?f) (take cnt (lambdas st0)) @ drop cnt (lambdas st0),
              hessians := map (\<lambda>x. x * ?f) (take cnt (hessians st0)) @ drop cnt (hessians st0) \<rparr>"
      using n True A by (simp add: normalize_def normalize_loop)
    then have "sum_lambdas st = sum_lambdas st0" by simp
    then obtain f where f: "?f = Fin f"
      using finite_norm_factor[of "sum_lambdas st0"] True assms(4) by auto
    show ?thesis
      using st z A assms(2) by (simp add: nth_append f)
  qed
qed

theorem sentinel_documents_get_zero_witness:
  "\<exists>st. GetGradientsForOneQuery NInf GetDiscount_log2 (ready_object norm_config [Fin 1]) 0 0 3
          [1, 0, 1] [Fin 0, Fin 0, NInf] [Fin 7, Fin 7, Fin 7] [Fin 9, Fin 9, Fin 9] = Inr st \<and>
      deq ([Fin 0, Fin 0, NInf] ! 2) NInf \<and> norm_' (ready_object norm_config [Fin 1]) \<and>
      sum_lambdas st \<noteq> PInf \<and> lambdas st ! 2 = Fin 0 \<and> hessians st ! 2 = Fin 0"
proof -
  from sentinel_query_run obtain st where
    r: "GetGradientsForOneQuery NInf GetDiscount_log2 (ready_object norm_config [Fin 1]) 0 0 3
          [1, 0, 1] [Fin 0, Fin 0, NInf] [Fin 7, Fin 7, Fin 7] [Fin 9, Fin 9, Fin 9] = Inr st"
    and s: "sum_lambdas st = Fin (1 - 1 / log 2 3)"
    by blast
  have "lambdas st ! 2 = Fin 0 \<and> hessians st ! 2 = Fin 0"
    using sentinel_documents_get_zero[OF r, of 2] s by simp
  then show ?thesis
    using r s by (simp add: ready_object_fields config_simps)
qed

text \<open>
  The proviso is needed. After an update that left \<^verbatim>\<open>i_biases_pow_[1]\<close> at zero (rank 1
  never held the higher label of a pair), a pair whose higher label stands at rank 1 is
  divided by zero: its lambda is \<open>-\<infinity>\<close>, \<^verbatim>\<open>sum_lambdas\<close> is \<open>+\<infinity>\<close>, the norm factor
  \<^verbatim>\<open>log2(1 + sum_lambdas) / sum_lambdas\<close> is NaN, and the zero of the sentinel document is
  multiplied by it.
\<close>

theorem sentinel_document_gets_nan:
  "i_biases_pow_' zero_bias_object = [Fin 1, Fin 0, Fin 2] \<and>
   deq ([Fin 0, Fin 0, NInf] ! 2) NInf \<and>
   (\<exists>st. GetGradientsForOneQuery NInf GetDiscount_log2 zero_bias_object 0 0 3 [0, 1, 0]
          [Fin 0, Fin 0, NInf] [Fin 0, Fin 0, Fin 0] [Fin 0, Fin 0, Fin 0] = Inr st \<and>
      lambdas st ! 2 = NaN \<and> hessians st ! 2 = NaN)"
  unfolding GetGradientsForOneQuery_def zero_bias_query_accumulated
  by (simp add: normalize_closed zero_bias_object_fields)

section \<open>C9: fatal errors\<close>

text \<open>
  C9. The constructor of the pairwise objective fails exactly when the sigmoid parameter is
  zero or negative, and \<^verbatim>\<open>RankingObjective::Init\<close> (which both objectives call first)
  fails exactly when the query boundaries are absent; each failure is a \<^verbatim>\<open>Log::Fatal\<close>
  with its message. With boundaries that hold one offset more than there are queries, and
  a label check of \<^verbatim>\<open>DCGCalculator\<close> that returns, \<^verbatim>\<open>LambdarankNDCG::Init\<close> completes.
  No \<^verbatim>\<open>GetGradients\<close> ends with a \<^verbatim>\<open>Log::Fatal\<close>.
\<close>

theorem fatal_errors:
  "(LambdarankNDCG_new DefaultLabelGain omp_num_threads config = Inl e \<longleftrightarrow>
      sigmoid config \<le> Fin 0 \<and> e = Fatal ''Sigmoid param %f should be greater than zero'') \<and>
   (RankingObjective_Init metadata num_data obj = Inl e \<longleftrightarrow>
      md_query_boundaries metadata = None \<and> e = Fatal ''Ranking tasks require query information'') \<and>
   (RankXENDCG_Init Random metadata num_data xobj = Inl e \<longleftrightarrow>
      md_query_boundaries metadata = None \<and> e = Fatal ''Ranking tasks require query information'') \<and>
   (md_query_boundaries metadata = None \<longrightarrow>
      LambdarankNDCG_Init CheckLabel CalMaxDCGAtK metadata num_data lobj =
        Inl (Fatal ''Ranking tasks require query information'')) \<and>
   (md_query_boundaries metadata = Some qb \<and> md_num_queries metadata < length qb \<and>
    CheckLabel (md_label metadata) num_data = Inr () \<longrightarrow>
      (\<exists>lobj'. LambdarankNDCG_Init CheckLabel CalMaxDCGAtK metadata num_data lobj = Inr lobj')) \<and>
   no_fatal (LambdarankNDCG_GetGradients kMinScore GetDiscount thread_of lobj score gradients hessians_in) \<and>
   no_fatal (RankXENDCG_GetGradients Softmax NextFloat kEpsilon xobj score gradients hessians_in)"
proof (intro conjI impI)
  show "LambdarankNDCG_new DefaultLabelGain omp_num_threads config = Inl e \<longleftrightarrow>
      sigmoid config \<le> Fin 0 \<and> e = Fatal ''Sigmoid param %f should be greater than zero''"
    by (auto simp: LambdarankNDCG_new_def)
  show "RankingObjective_Init metadata num_data obj = Inl e \<longleftrightarrow>
      md_query_boundaries metadata = None \<and> e = Fatal ''Ranking tasks require query information''"
    by (auto simp: RankingObjective_Init_def)
  show "RankXENDCG_Init Random metadata num_data xobj = Inl e \<longleftrightarrow>
      md_query_boundaries metadata = None \<and> e = Fatal ''Ranking tasks require query information''"
    by (auto simp: RankXENDCG_Init_def RankingObjective_Init_def)
  show "LambdarankNDCG_Init CheckLabel CalMaxDCGAtK metadata num_data lobj =
        Inl (Fatal ''Ranking tasks require query information'')"
    if "md_query_boundaries metadata = None"
    using that by (simp add: LambdarankNDCG_Init_def RankingObjective_Init_def)
  show "\<exists>lobj'. LambdarankNDCG_Init CheckLabel CalMaxDCGAtK metadata num_data lobj = Inr lobj'"
    if h: "md_query_boundaries metadata = Some qb \<and> md_num_queries metadata < length qb \<and>
      CheckLabel (md_label metadata) num_data = Inr ()"
  proof -
    let ?obj1 = "lobj\<lparr> num_data_' := num_data, label_' := md_label metadata,
                     weights_' := md_weights metadata,
                     query_boundaries_' := md_query_boundaries metadata,
                     num_queries_' := md_num_queries metadata \<rparr>"
    have i: "RankingObjective_Init metadata num_data lobj = Inr ?obj1"
      using h by (simp add: RankingObjective_Init_def)
    let ?d0 = "take (md_num_queries metadata)
           (inverse_max_dcgs_' lobj @ replicate (md_num_queries metadata) (Fin 0))"
    have "\<exists>dcgs. forE [0..<md_num_queries metadata] (inverse_max_dcg_of CalMaxDCGAtK ?obj1) ?d0
        = Inr dcgs"
      by (rule inverse_max_dcg_loop[where qb = qb]) (use h in simp_all)
    then obtain dcgs where "forE [0..<md_num_queries metadata]
        (inverse_max_dcg_of CalMaxDCGAtK ?obj1) ?d0 = Inr dcgs"
      by blast
    then show ?thesis
      using h by (simp add: LambdarankNDCG_Init_def i)
  qed
  show "no_fatal (LambdarankNDCG_GetGradients kMinScore GetDiscount thread_of lobj score gradients hessians_in)"
    by (rule nf_LambdarankNDCG_GetGradients)
  show "no_fatal (RankXENDCG_GetGradients Softmax NextFloat kEpsilon xobj score gradients hessians_in)"
    by (rule nf_RankXENDCG_GetGradients)
qed

theorem fatal_errors_witness:
  "sigmoid (demo_config\<lparr> sigmoid := Fin 0 \<rparr>) \<le> Fin 0 \<and>
   LambdarankNDCG_new (\<lambda>g. g) 1 (demo_config\<lparr> sigmoid := Fin 0 \<rparr>)
     = Inl (Fatal ''Sigmoid param %f should be greater than zero'') \<and>
   LambdarankNDCG_Init (\<lambda>_ _. Inr ()) (\<lambda>_ _ _. Fin 1)
       (demo_metadata\<lparr> md_query_boundaries := None \<rparr>) 2 demo_object
     = Inl (Fatal ''Ranking tasks require query information'') \<and>
   md_query_boundaries demo_metadata = Some [0, 2] \<and>
   md_num_queries demo_metadata < length [0, 2 :: nat] \<and>
   (\<exists>lobj'. LambdarankNDCG_Init (\<lambda>_ _. Inr ()) (\<lambda>_ _ _. Fin 1) demo_metadata 2 demo_object
      = Inr lobj')"
proof -
  have a: "sigmoid (demo_config\<lparr> sigmoid := Fin 0 \<rparr>) \<le> Fin 0"
    by simp
  have b: "md_query_boundaries (demo_metadata\<lparr> md_query_boundaries := None \<rparr>) = None"
    by simp
  have c: "md_query_boundaries demo_metadata = Some [0, 2]"
    "md_num_queries demo_metadata < length [0, 2 :: nat]"
    by (simp_all add: demo_metadata_def)
  let ?x = "\<lparr> seed_' = 0, num_queries_' = 0, num_data_' = 0, label_' = [], weights_' = None,
             query_boundaries_' = None, rands_' = [] :: int list \<rparr>"
  note t1 = fatal_errors[where config = "demo_config\<lparr> sigmoid := Fin 0 \<rparr>"
        and DefaultLabelGain = "\<lambda>g. g" and omp_num_threads = 1
        and e = "Fatal ''Sigmoid param %f should be greater than zero''"
        and metadata = "demo_metadata\<lparr> md_query_boundaries := None \<rparr>"
        and CheckLabel = "\<lambda>_ _. Inr ()" and CalMaxDCGAtK = "\<lambda>_ _ _. Fin 1"
        and num_data = 2 and lobj = demo_object and obj = demo_object
        and Random = "\<lambda>i. i" and xobj = ?x and kMinScore = NInf and GetDiscount = "\<lambda>_. Fin 1"
        and thread_of = "\<lambda>_. 0" and score = "[]" and gradients = "[]" and hessians_in = "[]"
        and Softmax = "\<lambda>s _. s" and NextFloat = "\<lambda>g. (Fin 0, g)" and kEpsilon = "Fin 0"
        and qb = "[]"]
  note t2 = fatal_errors[where config = demo_config
        and DefaultLabelGain = "\<lambda>g. g" and omp_num_threads = 1
        and e = "Fatal ''Sigmoid param %f should be greater than zero''"
        and metadata = demo_metadata and qb = "[0, 2]"
        and CheckLabel = "\<lambda>_ _. Inr ()" and CalMaxDCGAtK = "\<lambda>_ _ _. Fin 1"
        and num_data = 2 and lobj = demo_object and obj = demo_object
        and Random = "\<lambda>i. i" and xobj = ?x and kMinScore = NInf and GetDiscount = "\<lambda>_. Fin 1"
        and thread_of = "\<lambda>_. 0" and score = "[]" and gradients = "[]" and hessians_in = "[]"
        and Softmax = "\<lambda>s _. s" and NextFloat = "\<lambda>g. (Fin 0, g)" and kEpsilon = "Fin 0"]
  show ?thesis
    using a b c t1 t2 by simp
qed

section \<open>C10: the accesses of the pairwise computer\<close>

text \<open>
  C10. For a query with \<open>cnt \<ge> 1\<close> whose four slices hold at least \<open>cnt\<close> entries, no
  access of the pairwise computer to \<^verbatim>\<open>sorted_idx\<close>, \<^verbatim>\<open>score\<close>, \<^verbatim>\<open>label\<close>,
  \<^verbatim>\<open>lambdas\<close> or \<^verbatim>\<open>hessians\<close> is out of bounds. For \<open>cnt = 0\<close> the computer reads
  \<^verbatim>\<open>sorted_idx[0]\<close> of an empty vector, right after its read of the cached inverse
  maximal DCG.
\<close>

theorem pairwise_index_safety:
  "(1 \<le> cnt \<and> cnt \<le> length label \<and> cnt \<le> length score \<and>
    cnt \<le> length lambdas_in \<and> cnt \<le> length hessians_in \<longrightarrow>
      five_arrays_safe
        (GetGradientsForOneQuery kMinScore GetDiscount obj tid query_id cnt label score
           lambdas_in hessians_in)) \<and>
   GetGradientsForOneQuery kMinScore GetDiscount obj tid query_id 0 label score
       lambdas_in hessians_in =
     (if query_id < length (inverse_max_dcgs_' obj) then Inl (OutOfBounds A_sorted_idx)
      else Inl (OutOfBounds A_inverse_max_dcgs))"
  using sf_GetGradientsForOneQuery[of cnt label score lambdas_in hessians_in kMinScore GetDiscount obj tid query_id]
    empty_query_faults[of kMinScore GetDiscount obj tid query_id label score lambdas_in hessians_in]
  by simp

theorem pairwise_index_safety_witness:
  "(1::nat) \<le> 2 \<and> 2 \<le> length [1, 0 :: nat] \<and> 2 \<le> length [Fin 1, Fin 0] \<and>
   2 \<le> length [Fin 7, Fin 7] \<and> 2 \<le> length [Fin 9, Fin 9] \<and>
   five_arrays_safe
     (GetGradientsForOneQuery NInf GetDiscount_log2 (ready_object plain_config [Fin 1])
        0 0 2 [1, 0] [Fin 1, Fin 0] [Fin 7, Fin 7] [Fin 9, Fin 9]) \<and>
   GetGradientsForOneQuery NInf GetDiscount_log2 (ready_object plain_config [Fin 1])
        0 0 0 [] [] [] [] = Inl (OutOfBounds A_sorted_idx)"
  using pairwise_index_safety[of 2 "[1, 0]" "[Fin 1, Fin 0]" "[Fin 7, Fin 7]" "[Fin 9, Fin 9]"
      NInf GetDiscount_log2 "ready_object plain_config [Fin 1]" 0 0]
    pairwise_index_safety[of 0 "[]" "[]" "[]" "[]"
      NInf GetDiscount_log2 "ready_object plain_config [Fin 1]" 0 0]
  by (simp add: ready_object_fields config_simps)

end
